theory Spec2Isabelle
  imports Complex_Main "HOL-Library.Sublist" "HOL-Library.Log_Nat"
begin

section \<open>Python values and numbers\<close>

text \<open>
  The agent is a Python program. Python's unbounded \<open>int\<close> is \<^typ>\<open>int\<close>. A finite
  Python \<open>float\<close> is the real number it stands for. Where the program only passes
  floats on or divides two readings, the arithmetic is written on the reals; where it
  rounds a float to a decimal place and returns the result (\<open>CoreTracker.update\<close>), each
  operation is the binary64 operation of the section on floating point below. Byte
  strings and text are \<^typ>\<open>string\<close>.
\<close>

text \<open>The exceptions of the standard library that the modelled code can raise.\<close>

datatype py_error =
    OSError | ValueError | TypeError | AttributeError | KeyError | IndexError
  | UnicodeDecodeError | JSONDecodeError | ZeroDivisionError | OverflowError

text \<open>The nearest integer, a tie going to the even one.\<close>

definition round_half_even :: "real \<Rightarrow> int" where
  "round_half_even x =
     (let f = \<lfloor>x\<rfloor>; d = x - of_int f
      in if d < 1 / 2 then f
         else if 1 / 2 < d then f + 1
         else if even f then f else f + 1)"

text \<open>\<open>round(x, ndigits)\<close> of Python 3: to the nearest multiple of \<open>10 ^ -ndigits\<close>, ties to even.\<close>

definition py_round :: "real \<Rightarrow> nat \<Rightarrow> real" where
  "py_round x ndigits = of_int (round_half_even (x * 10 ^ ndigits)) / 10 ^ ndigits"


section \<open>DeltaTracker\<close>

text \<open>
  \<open>DeltaTracker._data\<close> is a dictionary from a key to the pair \<open>(value, time)\<close>. The lock
  makes \<open>update\<close> atomic, so one call is one state transition; the reading of
  \<open>time.monotonic()\<close> is the argument \<open>now\<close>. The result is the returned rate and the
  dictionary after the call.
\<close>

type_synonym delta_data = "string \<rightharpoonup> (int \<times> real)"

definition DeltaTracker_update :: "delta_data \<Rightarrow> real \<Rightarrow> string \<Rightarrow> int \<Rightarrow> real \<times> delta_data" where
  "DeltaTracker_update data now key val =
     (case data key of
        Some (old_val, old_time) \<Rightarrow>
          (let time_delta = now - old_time;
               val_delta = val - old_val;
               data' = data(key \<mapsto> (val, now))
           in if 0 < time_delta then (of_int val_delta / time_delta, data')
              else (0, data'(key \<mapsto> (val, now))))
      | None \<Rightarrow> (0, data(key \<mapsto> (val, now))))"


section \<open>Binary floating point\<close>

text \<open>
  A CPython \<open>float\<close> is an IEEE 754 binary64 number: zero, or \<open>m * 2 ^ e\<close> with an integer
  \<open>m\<close> of at most 53 bits and \<open>- 1074 \<le> e \<le> 971\<close>, or an infinity. Every operation
  returns the representable number nearest to the exact result, a tie going to the even
  significand. The sign of a zero is not represented, and no operation below produces a
  NaN.
\<close>

definition pow2 :: "int \<Rightarrow> real" where
  "pow2 e = (if 0 \<le> e then 2 ^ nat e else 1 / 2 ^ nat (- e))"

text \<open>The binary exponent of a non-zero real: \<open>2 ^ ilog2 x \<le> \<bar>x\<bar> < 2 ^ (ilog2 x + 1)\<close>.\<close>

definition ilog2 :: "real \<Rightarrow> int" where
  "ilog2 x = (if 1 \<le> \<bar>x\<bar> then bitlen \<lfloor>\<bar>x\<bar>\<rfloor> - 1 else - bitlen (\<lceil>1 / \<bar>x\<bar>\<rceil> - 1))"

text \<open>
  Rounding to 53 significant bits, or to a multiple of \<open>2 ^ - 1074\<close> in the subnormal
  range.
\<close>

definition round_binary64 :: "real \<Rightarrow> real" where
  "round_binary64 x =
     (if x = 0 then 0
      else let e = max (ilog2 x - 52) (- 1074)
           in of_int (round_half_even (x / pow2 e)) * pow2 e)"

definition max_float :: real where
  "max_float = (2 ^ 53 - 1) * 2 ^ 971"

datatype pyfloat = Float real | PosInf | NegInf

definition to_float :: "real \<Rightarrow> pyfloat" where
  "to_float x =
     (let r = round_binary64 x
      in if max_float < r then PosInf else if r < - max_float then NegInf else Float r)"

text \<open>
  \<open>a / b\<close> on two \<open>int\<close>s is correctly rounded; it raises \<open>ZeroDivisionError\<close> for a zero
  divisor and \<open>OverflowError\<close> when the quotient is too large for a float.
\<close>

definition int_truediv :: "int \<Rightarrow> int \<Rightarrow> py_error + real" where
  "int_truediv a b =
     (if b = 0 then Inl ZeroDivisionError
      else (case to_float (of_int a / of_int b) of
              Float q \<Rightarrow> Inr q
            | _ \<Rightarrow> Inl OverflowError))"

text \<open>\<open>x - y\<close> on two finite floats, and \<open>x * c\<close> for a float \<open>x\<close> and a finite non-zero \<open>c\<close>.\<close>

definition float_sub :: "real \<Rightarrow> real \<Rightarrow> pyfloat" where
  "float_sub x y = to_float (x - y)"

definition float_mul :: "pyfloat \<Rightarrow> real \<Rightarrow> pyfloat" where
  "float_mul x c =
     (case x of
        Float a \<Rightarrow> to_float (a * c)
      | PosInf \<Rightarrow> (if 0 < c then PosInf else NegInf)
      | NegInf \<Rightarrow> (if 0 < c then NegInf else PosInf))"

text \<open>
  \<open>round(x, ndigits)\<close> on a float with \<open>ndigits \<ge> 0\<close>: the exact value of \<open>x\<close> is rounded to
  \<open>ndigits\<close> decimal places, a tie going to the even last digit, and the decimal number
  so obtained is converted back to the nearest float. An infinity is returned as it is,
  and so is any float when \<open>ndigits\<close> exceeds 323; a result too large for a float raises
  \<open>OverflowError\<close>.
\<close>

definition float_round :: "pyfloat \<Rightarrow> nat \<Rightarrow> py_error + pyfloat" where
  "float_round x ndigits =
     (case x of
        Float y \<Rightarrow>
          if 323 < ndigits then Inr (Float y)
          else (case to_float (of_int (round_half_even (y * 10 ^ ndigits)) / 10 ^ ndigits) of
                  Float r \<Rightarrow> Inr (Float r)
                | _ \<Rightarrow> Inl OverflowError)
      | _ \<Rightarrow> Inr x)"


section \<open>CoreTracker\<close>

text \<open>
  \<open>CoreTracker._cores\<close> is a dictionary from a core id to the pair \<open>(idle, total)\<close> of
  jiffy counters. The result is what \<open>update\<close> returns or raises, and the dictionary
  after the call; the new pair is stored before the return value is computed.
\<close>

type_synonym core_data = "int \<rightharpoonup> (int \<times> int)"

definition CoreTracker_update ::
  "core_data \<Rightarrow> int \<Rightarrow> int \<Rightarrow> int \<Rightarrow> (py_error + pyfloat) \<times> core_data" where
  "CoreTracker_update cores core_id idle total_v =
     (case cores core_id of
        Some (old_idle, old_total) \<Rightarrow>
          (let idle_delta = idle - old_idle;
               total_delta = total_v - old_total;
               cores' = cores(core_id \<mapsto> (idle, total_v))
           in if 0 < total_delta
              then ((case int_truediv idle_delta total_delta of
                       Inl e \<Rightarrow> Inl e
                     | Inr q \<Rightarrow> float_round (float_mul (float_sub 1 q) 100) 1),
                    cores')
              else (Inr (Float 0), cores'(core_id \<mapsto> (idle, total_v))))
      | None \<Rightarrow> (Inr (Float 0), cores(core_id \<mapsto> (idle, total_v))))"


section \<open>JSON values\<close>

text \<open>
  What \<open>json.loads\<close> returns and \<open>json.dumps\<close> accepts: \<open>None\<close>, booleans, numbers,
  strings, lists, and dictionaries with string keys. A dictionary is the association
  list of its items in insertion order, the keys distinct.
\<close>

datatype pyval =
    PNone
  | PBool bool
  | PInt int
  | PFloat real
  | PStr string
  | PList "pyval list"
  | PDict "(string \<times> pyval) list"

text \<open>Truth value testing, as \<open>if x:\<close> and \<open>not x\<close> do it.\<close>

fun truthy :: "pyval \<Rightarrow> bool" where
  "truthy PNone = False"
| "truthy (PBool b) = b"
| "truthy (PInt i) = (i \<noteq> 0)"
| "truthy (PFloat x) = (x \<noteq> 0)"
| "truthy (PStr s) = (s \<noteq> [])"
| "truthy (PList xs) = (xs \<noteq> [])"
| "truthy (PDict kvs) = (kvs \<noteq> [])"

text \<open>\<open>x.get(key, default)\<close>: only a dictionary has the method.\<close>

fun py_get :: "pyval \<Rightarrow> string \<Rightarrow> pyval \<Rightarrow> py_error + pyval" where
  "py_get (PDict kvs) key dflt = Inr (case map_of kvs key of Some v \<Rightarrow> v | None \<Rightarrow> dflt)"
| "py_get _ key dflt = Inl AttributeError"

text \<open>\<open>x[0]\<close> on a value that has passed the truth test.\<close>

fun py_first :: "pyval \<Rightarrow> py_error + pyval" where
  "py_first (PList xs) = (case xs of [] \<Rightarrow> Inl IndexError | x # _ \<Rightarrow> Inr x)"
| "py_first (PStr s) = (case s of [] \<Rightarrow> Inl IndexError | c # _ \<Rightarrow> Inr (PStr [c]))"
| "py_first (PDict kvs) = Inl KeyError"
| "py_first _ = Inl TypeError"

text \<open>\<open>x.lstrip('/')\<close>.\<close>

fun py_lstrip_slash :: "pyval \<Rightarrow> py_error + string" where
  "py_lstrip_slash (PStr s) = Inr (dropWhile (\<lambda>c. c = CHR ''/'') s)"
| "py_lstrip_slash _ = Inl AttributeError"

text \<open>\<open>'/' in x\<close>.\<close>

fun py_contains_slash :: "pyval \<Rightarrow> py_error + bool" where
  "py_contains_slash (PStr s) = Inr (CHR ''/'' \<in> set s)"
| "py_contains_slash (PList xs) = Inr (PStr ''/'' \<in> set xs)"
| "py_contains_slash (PDict kvs) = Inr (''/'' \<in> set (map fst kvs))"
| "py_contains_slash _ = Inl TypeError"

text \<open>\<open>x.split('/')[-1]\<close>: the part after the last slash.\<close>

fun py_split_slash_last :: "pyval \<Rightarrow> py_error + pyval" where
  "py_split_slash_last (PStr s) = Inr (PStr (rev (takeWhile (\<lambda>c. c \<noteq> CHR ''/'') (rev s))))"
| "py_split_slash_last _ = Inl AttributeError"

text \<open>The items a \<open>for\<close> loop over \<open>x\<close> visits.\<close>

fun py_iter :: "pyval \<Rightarrow> py_error + pyval list" where
  "py_iter (PList xs) = Inr xs"
| "py_iter (PDict kvs) = Inr (map (\<lambda>kv. PStr (fst kv)) kvs)"
| "py_iter (PStr s) = Inr (map (\<lambda>c. PStr [c]) s)"
| "py_iter _ = Inl TypeError"


section \<open>The Docker socket client: \<open>get_containers\<close>\<close>

subsection \<open>The read loop\<close>

text \<open>
  One call of \<open>sock.recv(1024)\<close> returns a chunk (empty when the peer has closed), runs
  into the one second timeout, or raises another socket error. The peer is the function
  that gives the outcome of the \<open>i\<close>-th call, so it may go on sending for ever.
\<close>

datatype recv_result = Recv string | RecvTimeout | RecvError

definition CR :: char where "CR = CHR 0x0D"
definition LF :: char where "LF = CHR 0x0A"

definition chunk_end :: string where
  "chunk_end = [CR, LF, CHR ''0'', CR, LF, CR, LF]"

definition header_end :: string where
  "header_end = [CR, LF, CR, LF]"

record read_result =
  rl_error :: "py_error option"
  rl_response :: string
  rl_reads :: nat

text \<open>
  \<open>for _ in range(100)\<close> with its body. The first argument after the peer is the number of
  iterations left, \<open>i\<close> the number of \<open>recv\<close> calls made so far, \<open>response\<close> the bytes
  accumulated. \<open>socket.timeout\<close> is caught inside the loop; any other error leaves it.
\<close>

fun read_loop :: "(nat \<Rightarrow> recv_result) \<Rightarrow> nat \<Rightarrow> nat \<Rightarrow> string \<Rightarrow> read_result" where
  "read_loop recv 0 i response = \<lparr>rl_error = None, rl_response = response, rl_reads = i\<rparr>"
| "read_loop recv (Suc k) i response =
     (case recv i of
        RecvTimeout \<Rightarrow> \<lparr>rl_error = None, rl_response = response, rl_reads = Suc i\<rparr>
      | RecvError \<Rightarrow> \<lparr>rl_error = Some OSError, rl_response = response, rl_reads = Suc i\<rparr>
      | Recv chunk \<Rightarrow>
          if chunk = [] then \<lparr>rl_error = None, rl_response = response, rl_reads = Suc i\<rparr>
          else let response' = response @ chunk
               in if sublist chunk_end response' \<or> 50000 < length response'
                  then \<lparr>rl_error = None, rl_response = response', rl_reads = Suc i\<rparr>
                  else read_loop recv k (Suc i) response')"

text \<open>
  For stating what the loop does: the bytes the first \<open>n\<close> calls deliver, and whether the
  call number \<open>k\<close> (from 0) meets one of the loop's exits.
\<close>

fun chunk_of :: "recv_result \<Rightarrow> string" where
  "chunk_of (Recv chunk) = chunk"
| "chunk_of _ = []"

definition received :: "(nat \<Rightarrow> recv_result) \<Rightarrow> nat \<Rightarrow> string" where
  "received recv n = concat (map (\<lambda>i. chunk_of (recv i)) [0..<n])"

definition stops_at :: "(nat \<Rightarrow> recv_result) \<Rightarrow> nat \<Rightarrow> bool" where
  "stops_at recv k =
     (case recv k of
        Recv chunk \<Rightarrow>
          chunk = [] \<or> sublist chunk_end (received recv (Suc k))
          \<or> 50000 < length (received recv (Suc k))
      | _ \<Rightarrow> True)"

text \<open>\<open>recv(bufsize)\<close> never returns more than \<open>bufsize\<close> bytes.\<close>

definition recv_within :: "nat \<Rightarrow> recv_result \<Rightarrow> bool" where
  "recv_within bufsize r = (length (chunk_of r) \<le> bufsize)"


subsection \<open>Splitting off the headers and extracting the array\<close>

text \<open>\<open>response.split(sep, 1)\<close> when \<open>sep\<close> occurs in \<open>response\<close>: the parts around the first occurrence.\<close>

fun split_once :: "string \<Rightarrow> string \<Rightarrow> string \<times> string" where
  "split_once sep [] = ([], [])"
| "split_once sep (c # cs) =
     (if prefix sep (c # cs) then ([], drop (length sep) (c # cs))
      else (case split_once sep cs of (h, b) \<Rightarrow> (c # h, b)))"

text \<open>\<open>body.find(b)\<close> for one byte: the first index, or \<open>-1\<close>.\<close>

fun py_find :: "char \<Rightarrow> string \<Rightarrow> int" where
  "py_find b [] = - 1"
| "py_find b (c # cs) =
     (if c = b then 0 else (let r = py_find b cs in if r < 0 then - 1 else r + 1))"

text \<open>
  The bracket scan: the loop over \<open>i\<close> in \<open>range(json_start, min(len(body), json_start + 50000))\<close>,
  given as the list of indices still to visit, with the variables \<open>depth\<close> and \<open>json_end\<close>. It
  returns \<open>json_end\<close>.
\<close>

fun bracket_scan :: "string \<Rightarrow> nat list \<Rightarrow> int \<Rightarrow> nat \<Rightarrow> nat" where
  "bracket_scan body [] depth json_end = json_end"
| "bracket_scan body (i # is) depth json_end =
     (if body ! i = CHR ''['' then bracket_scan body is (depth + 1) json_end
      else if body ! i = CHR '']''
           then (if depth - 1 = 0 then i + 1 else bracket_scan body is (depth - 1) json_end)
           else bracket_scan body is depth json_end)"

text \<open>\<open>body[json_start:json_end]\<close> for indices within the body.\<close>

definition slice :: "string \<Rightarrow> nat \<Rightarrow> nat \<Rightarrow> string" where
  "slice body i j = take (j - i) (drop i body)"


subsection \<open>Mapping the parsed data\<close>

record container_summary =
  name :: string
  status :: pyval
  image :: pyval

text \<open>
  The body of the loop over the parsed containers: \<open>Inl\<close> when a step raises, \<open>Inr None\<close>
  for \<open>continue\<close>, \<open>Inr (Some c)\<close> for the dictionary appended to \<open>containers\<close>.
\<close>

definition container_entry :: "pyval \<Rightarrow> py_error + container_summary option" where
  "container_entry container =
     (case py_get container ''Names'' (PList []) of
        Inl e \<Rightarrow> Inl e
      | Inr names \<Rightarrow>
          if \<not> truthy names then Inr None
          else (case py_first names of
                  Inl e \<Rightarrow> Inl e
                | Inr first \<Rightarrow>
                   (case py_lstrip_slash first of
                      Inl e \<Rightarrow> Inl e
                    | Inr nm \<Rightarrow>
                       (case py_get container ''Image'' (PStr []) of
                          Inl e \<Rightarrow> Inl e
                        | Inr img \<Rightarrow>
                           (case py_contains_slash img of
                              Inl e \<Rightarrow> Inl e
                            | Inr has_slash \<Rightarrow>
                               (case (if has_slash then py_split_slash_last img else Inr img) of
                                  Inl e \<Rightarrow> Inl e
                                | Inr img' \<Rightarrow>
                                   (case py_get container ''State'' (PStr ''unknown'') of
                                      Inl e \<Rightarrow> Inl e
                                    | Inr state \<Rightarrow>
                                        Inr (Some \<lparr>name = nm, status = state, image = img'\<rparr>))))))))"

text \<open>
  The loop \<open>for container in data\<close>: \<open>containers\<close> is the list built so far. The result is
  the list at the moment the loop ends or raises, with the exception raised if any.
\<close>

fun map_containers ::
  "pyval list \<Rightarrow> container_summary list \<Rightarrow> container_summary list \<times> py_error option" where
  "map_containers [] containers = (containers, None)"
| "map_containers (container # rest) containers =
     (case container_entry container of
        Inl e \<Rightarrow> (containers, Some e)
      | Inr None \<Rightarrow> map_containers rest containers
      | Inr (Some c) \<Rightarrow> map_containers rest (containers @ [c]))"


subsection \<open>The whole function\<close>

text \<open>
  What \<open>get_containers\<close> meets outside the program: whether creating the socket,
  connecting, sending and closing succeed, what the peer sends, and the two library calls
  \<open>bytes.decode('utf-8')\<close> and \<open>json.loads\<close> (\<open>None\<close> when they raise).
\<close>

record docker_env =
  socket_ok :: bool
  connect_ok :: bool
  sendall_ok :: bool
  peer :: "nat \<Rightarrow> recv_result"
  close_ok :: bool
  decode_utf8 :: "string \<Rightarrow> string option"
  json_loads :: "string \<Rightarrow> pyval option"

text \<open>
  The list \<open>containers\<close> starts empty and is returned whether the \<open>try\<close> block completes or
  not; only the mapping loop appends to it.
\<close>

definition get_containers :: "docker_env \<Rightarrow> container_summary list" where
  "get_containers env =
     (if \<not> socket_ok env \<or> \<not> connect_ok env \<or> \<not> sendall_ok env then []
      else let r = read_loop (peer env) 100 0 [] in
        if rl_error r \<noteq> None \<or> \<not> close_ok env then []
        else let response = rl_response r in
          if \<not> sublist header_end response then []
          else let (headers, body) = split_once header_end response;
                   json_start = py_find (CHR ''['') body in
            if json_start < 0 then []
            else let start = nat json_start;
                     json_end = bracket_scan body [start ..< min (length body) (start + 50000)] 0 start;
                     json_str = slice body start json_end in
              (case decode_utf8 env json_str of
                 None \<Rightarrow> []
               | Some text \<Rightarrow>
                  (case json_loads env text of
                     None \<Rightarrow> []
                   | Some data \<Rightarrow>
                      (case py_iter data of
                         Inl e \<Rightarrow> []
                       | Inr items \<Rightarrow> fst (map_containers items [])))))"


subsection \<open>Two peers\<close>

text \<open>A peer that sends a status line, then the terminating chunk, then nothing.\<close>

definition demo_peer :: "nat \<Rightarrow> recv_result" where
  "demo_peer i =
     (if i = 0 then Recv ''HTTP/1.1 200 OK'' else if i = 1 then Recv chunk_end else RecvTimeout)"

text \<open>
  A peer whose reply is a well-formed chunked HTTP response carrying a JSON array of one
  container object followed by the number 7, with what \<open>json.loads\<close> makes of that text.
\<close>

definition partial_json :: string where
  \<open>partial_json = ''[{"Names":["/web"],"Image":"nginx","State":"running"},7]''\<close>

definition partial_data :: pyval where
  "partial_data =
     PList [PDict [(''Names'', PList [PStr ''/web'']), (''Image'', PStr ''nginx''),
                   (''State'', PStr ''running'')],
            PInt 7]"

definition partial_headers :: string where
  "partial_headers = ''HTTP/1.1 200 OK'' @ [CR, LF] @ ''Transfer-Encoding: chunked''"

definition partial_body :: string where
  "partial_body = ''38'' @ [CR, LF] @ partial_json @ chunk_end"

definition partial_env :: docker_env where
  "partial_env =
     \<lparr>socket_ok = True, connect_ok = True, sendall_ok = True,
      peer = (\<lambda>i. if i = 0 then Recv (partial_headers @ header_end @ partial_body)
                  else RecvTimeout),
      close_ok = True,
      decode_utf8 = Some,
      json_loads = (\<lambda>s. if s = partial_json then Some partial_data else None)\<rparr>"


section \<open>The process collector: \<open>get_top_processes\<close>\<close>

subsection \<open>String methods\<close>

text \<open>
  Files are read as text; the model works on the ASCII range, in which the whitespace of
  \<open>str.split()\<close> is the ten characters below and the digits of \<open>str.isdigit()\<close> are
  \<open>0\<close> to \<open>9\<close>.
\<close>

definition is_space :: "char \<Rightarrow> bool" where
  "is_space c = (c \<in> set [CHR '' '', CHR 0x09, CHR 0x0A, CHR 0x0B, CHR 0x0C, CHR 0x0D,
                          CHR 0x1C, CHR 0x1D, CHR 0x1E, CHR 0x1F])"

text \<open>\<open>s.split()\<close>: the maximal runs of non-whitespace; \<open>w\<close> is the run being read.\<close>

fun split_acc :: "string \<Rightarrow> string \<Rightarrow> string list" where
  "split_acc [] w = (if w = [] then [] else [w])"
| "split_acc (c # cs) w =
     (if is_space c then (if w = [] then split_acc cs [] else w # split_acc cs [])
      else split_acc cs (w @ [c]))"

definition py_split :: "string \<Rightarrow> string list" where
  "py_split s = split_acc s []"

definition py_isdigit :: "string \<Rightarrow> bool" where
  "py_isdigit s = (s \<noteq> [] \<and> (\<forall>c \<in> set s. c \<in> set ''0123456789''))"

text \<open>\<open>s.index(b)\<close> and \<open>s.rindex(b)\<close> for one character: \<open>None\<close> stands for \<open>ValueError\<close>.\<close>

definition py_index :: "char \<Rightarrow> string \<Rightarrow> nat option" where
  "py_index b s = (let r = py_find b s in if r < 0 then None else Some (nat r))"

definition py_rindex :: "char \<Rightarrow> string \<Rightarrow> nat option" where
  "py_rindex b s =
     (let r = py_find b (rev s) in if r < 0 then None else Some (length s - 1 - nat r))"

text \<open>\<open>xs[:n]\<close>: a negative \<open>n\<close> counts from the end.\<close>

definition py_slice_to :: "'a list \<Rightarrow> int \<Rightarrow> 'a list" where
  "py_slice_to xs n = (if 0 \<le> n then take (nat n) xs else take (length xs - nat (- n)) xs)"

subsection \<open>The collector\<close>

text \<open>
  What the collector reads: the two \<open>os.sysconf\<close> values, the content of \<open>/proc/uptime\<close>
  (\<open>None\<close> when it cannot be opened or read), the listing of \<open>/proc\<close> (\<open>None\<close> when
  \<open>os.listdir\<close> raises), the content of \<open>/proc/<pid>/stat\<close> for each entry, and the
  built-in conversions \<open>float()\<close> and \<open>int()\<close> of a string (\<open>None\<close> for \<open>ValueError\<close>).
\<close>

record proc_env =
  page_size :: int
  clock_ticks :: int
  uptime_file :: "string option"
  listdir_proc :: "string list option"
  stat_file :: "string \<Rightarrow> string option"
  py_float :: "string \<Rightarrow> real option"
  py_int :: "string \<Rightarrow> int option"

text \<open>One dictionary of \<open>proc_data\<close>; the key \<open>'name'\<close> is the field \<open>pname\<close>.\<close>

record process =
  pid :: int
  pname :: string
  cpu :: real
  mem_rss :: int
  mem_virt :: int

text \<open>
  The body of the loop over the pids. Every exception in it is caught by
  \<open>except: continue\<close>, so the result is \<open>None\<close> when any step fails: the file cannot be
  read, a parenthesis is missing, there are fewer than 22 fields, a field is not an
  integer, or \<open>clock_ticks\<close> is zero.
\<close>

definition proc_entry :: "proc_env \<Rightarrow> real \<Rightarrow> string \<Rightarrow> process option" where
  "proc_entry env uptime pid_s =
     (case stat_file env pid_s of
        None \<Rightarrow> None
      | Some stat \<Rightarrow>
         (case (py_index (CHR ''('') stat, py_rindex (CHR '')'') stat) of
            (Some comm_start, Some comm_end) \<Rightarrow>
              (let comm = slice stat (comm_start + 1) comm_end;
                   fields = py_split (drop (comm_end + 2) stat)
               in if length fields \<le> 21 then None
                  else (case (py_int env (fields ! 11), py_int env (fields ! 12),
                              py_int env (fields ! 19), py_int env (fields ! 20),
                              py_int env (fields ! 21)) of
                          (Some utime, Some stime, Some starttime, Some vsize, Some rss_pages) \<Rightarrow>
                            (let rss = rss_pages * page_size env;
                                 total_time = utime + stime
                             in if clock_ticks env = 0 then None
                                else (let proc_uptime = uptime - of_int starttime / of_int (clock_ticks env);
                                          cpu_percent =
                                            (if 0 < proc_uptime
                                             then of_int total_time / of_int (clock_ticks env) / proc_uptime * 100
                                             else 0)
                                      in (case py_int env pid_s of
                                            None \<Rightarrow> None
                                          | Some p \<Rightarrow>
                                              Some \<lparr>pid = p, pname = take 15 comm,
                                                    cpu = py_round cpu_percent 1,
                                                    mem_rss = rss, mem_virt = vsize\<rparr>)))
                        | _ \<Rightarrow> None))
          | _ \<Rightarrow> None))"

text \<open>
  \<open>proc_data.sort(key=lambda x: x['cpu'], reverse=True)\<close>: a stable sort in descending
  order, entries with equal keys staying in their original order.
\<close>

definition sort_by_cpu_desc :: "process list \<Rightarrow> process list" where
  "sort_by_cpu_desc proc_data = rev (sort_key cpu (rev proc_data))"

text \<open>
  The first \<open>try\<close> returns \<open>[]\<close> when the uptime cannot be read or parsed; the second
  leaves \<open>processes\<close> empty when listing \<open>/proc\<close> fails.
\<close>

definition get_top_processes :: "proc_env \<Rightarrow> int \<Rightarrow> process list" where
  "get_top_processes env n =
     (case uptime_file env of
        None \<Rightarrow> []
      | Some content \<Rightarrow>
         (case py_split content of
            [] \<Rightarrow> []
          | tok # _ \<Rightarrow>
             (case py_float env tok of
                None \<Rightarrow> []
              | Some uptime \<Rightarrow>
                 (case listdir_proc env of
                    None \<Rightarrow> []
                  | Some entries \<Rightarrow>
                      (let pids = filter py_isdigit entries;
                           proc_data = List.map_filter (proc_entry env uptime) pids
                       in py_slice_to (sort_by_cpu_desc proc_data) n)))))"

text \<open>The call with the default \<open>n=10\<close>, the only one the program makes.\<close>

definition get_top_processes_default :: "proc_env \<Rightarrow> process list" where
  "get_top_processes_default env = get_top_processes env 10"

subsection \<open>A process table with two processes\<close>

text \<open>\<open>int()\<close> on an optional minus sign and decimal digits.\<close>

fun digits_value :: "string \<Rightarrow> nat \<Rightarrow> nat option" where
  "digits_value [] acc = Some acc"
| "digits_value (c # cs) acc =
     (if c \<in> set ''0123456789'' then digits_value cs (10 * acc + (of_char c - 48)) else None)"

definition ascii_int :: "string \<Rightarrow> int option" where
  "ascii_int s =
     (case s of
        [] \<Rightarrow> None
      | c # cs \<Rightarrow>
          if c = CHR ''-'' \<and> cs \<noteq> [] then map_option (\<lambda>n. - int n) (digits_value cs 0)
          else map_option int (digits_value s 0))"

text \<open>
  A host up for 1000 seconds, with 100 clock ticks per second, and two processes started
  at boot: pid 1 has used 300 ticks of processor time, pid 2 has used 500.
\<close>

definition two_procs :: proc_env where
  "two_procs =
     \<lparr>page_size = 4096, clock_ticks = 100,
      uptime_file = Some ''1000.00 1900.00'',
      listdir_proc = Some [''1'', ''self'', ''2''],
      stat_file = (\<lambda>p. if p = ''1'' then Some ''1 (init) S 0 1 1 0 -1 0 0 0 0 0 200 100 0 0 20 0 1 0 0 4096 10''
                        else if p = ''2'' then Some ''2 (agent) S 1 2 2 0 -1 0 0 0 0 0 500 0 0 0 20 0 1 0 0 8192 20''
                        else None),
      py_float = (\<lambda>s. if s = ''1000.00'' then Some 1000 else None),
      py_int = ascii_int\<rparr>"


section \<open>The JSON encoder: \<open>json.dumps\<close>\<close>

text \<open>
  The handler serialises the snapshot with the standard library's \<open>json.dumps\<close>, with its
  defaults but for the separators or the indentation. The encoder is modelled as the
  library documents it; the text of a float, \<open>float.__repr__\<close>, is a parameter. A
  character of a string stands for a code point below 256.
\<close>

text \<open>\<open>int.__repr__\<close>: decimal digits, with a minus sign for a negative number.\<close>

function str_of_nat :: "nat \<Rightarrow> string" where
  "str_of_nat n =
     (if n < 10 then [''0123456789'' ! n]
      else str_of_nat (n div 10) @ [''0123456789'' ! (n mod 10)])"
  by pat_completeness auto
termination
  by (relation "measure id") auto

definition str_of_int :: "int \<Rightarrow> string" where
  "str_of_int i = (if i < 0 then CHR ''-'' # str_of_nat (nat (- i)) else str_of_nat (nat i))"

text \<open>
  Strings (\<open>ensure_ascii\<close>): the quote and the backslash are escaped with a backslash,
  the control characters with a short escape have it, every other character outside
  space to tilde becomes \<open>\uXXXX\<close> with four lower-case hexadecimal digits.
\<close>

definition hex4 :: "nat \<Rightarrow> string" where
  "hex4 n = map (\<lambda>d. ''0123456789abcdef'' ! d)
              [n div 4096 mod 16, n div 256 mod 16, n div 16 mod 16, n mod 16]"

definition escape_char :: "char \<Rightarrow> string" where
  "escape_char c =
     (if c = CHR 0x22 then [CHR 0x5C, CHR 0x22]
      else if c = CHR 0x5C then [CHR 0x5C, CHR 0x5C]
      else if c = CHR 0x0A then [CHR 0x5C, CHR ''n'']
      else if c = CHR 0x0D then [CHR 0x5C, CHR ''r'']
      else if c = CHR 0x09 then [CHR 0x5C, CHR ''t'']
      else if c = CHR 0x0C then [CHR 0x5C, CHR ''f'']
      else if c = CHR 0x08 then [CHR 0x5C, CHR ''b'']
      else if 32 \<le> (of_char c :: nat) \<and> (of_char c :: nat) \<le> 126 then [c]
      else [CHR 0x5C, CHR ''u''] @ hex4 (of_char c))"

definition encode_string :: "string \<Rightarrow> string" where
  "encode_string s = [CHR 0x22] @ concat (map escape_char s) @ [CHR 0x22]"

text \<open>
  The encoder's settings, and the encoder: \<open>encode\<close> for a value at a nesting level,
  \<open>encode_items\<close> and \<open>encode_pairs\<close> for the items of a non-empty list or dictionary,
  joined by the separator of that level. With an indentation every item starts on a new
  line, indented by the level, and the closing bracket is on a line of its own.
\<close>

record json_encoder =
  float_repr :: "real \<Rightarrow> string"
  indent :: "nat option"
  item_separator :: string
  key_separator :: string

fun encode :: "json_encoder \<Rightarrow> nat \<Rightarrow> pyval \<Rightarrow> string"
  and encode_items :: "json_encoder \<Rightarrow> nat \<Rightarrow> string \<Rightarrow> pyval list \<Rightarrow> string"
  and encode_pairs :: "json_encoder \<Rightarrow> nat \<Rightarrow> string \<Rightarrow> (string \<times> pyval) list \<Rightarrow> string"
where
  "encode enc level PNone = ''null''"
| "encode enc level (PBool b) = (if b then ''true'' else ''false'')"
| "encode enc level (PInt i) = str_of_int i"
| "encode enc level (PFloat x) = float_repr enc x"
| "encode enc level (PStr s) = encode_string s"
| "encode enc level (PList []) = ''[]''"
| "encode enc level (PList (x # xs)) =
     (case indent enc of
        None \<Rightarrow> ''['' @ encode_items enc level (item_separator enc) (x # xs) @ '']''
      | Some n \<Rightarrow>
          (let newline_indent = CHR 0x0A # replicate (n * (level + 1)) CHR '' ''
           in ''['' @ newline_indent
              @ encode_items enc (level + 1) (item_separator enc @ newline_indent) (x # xs)
              @ CHR 0x0A # replicate (n * level) CHR '' '' @ '']''))"
| "encode enc level (PDict []) = ''{}''"
| "encode enc level (PDict (kv # kvs)) =
     (case indent enc of
        None \<Rightarrow> ''{'' @ encode_pairs enc level (item_separator enc) (kv # kvs) @ ''}''
      | Some n \<Rightarrow>
          (let newline_indent = CHR 0x0A # replicate (n * (level + 1)) CHR '' ''
           in ''{'' @ newline_indent
              @ encode_pairs enc (level + 1) (item_separator enc @ newline_indent) (kv # kvs)
              @ CHR 0x0A # replicate (n * level) CHR '' '' @ ''}''))"
| "encode_items enc level sep [] = []"
| "encode_items enc level sep [x] = encode enc level x"
| "encode_items enc level sep (x # y # ys) =
     encode enc level x @ sep @ encode_items enc level sep (y # ys)"
| "encode_pairs enc level sep [] = []"
| "encode_pairs enc level sep [(k, v)] = encode_string k @ key_separator enc @ encode enc level v"
| "encode_pairs enc level sep ((k, v) # kv # kvs) =
     encode_string k @ key_separator enc @ encode enc level v @ sep
     @ encode_pairs enc level sep (kv # kvs)"

text \<open>\<open>json.dumps(v, separators=(',', ':'))\<close> and \<open>json.dumps(v, indent=n)\<close>.\<close>

definition dumps_compact :: "(real \<Rightarrow> string) \<Rightarrow> pyval \<Rightarrow> string" where
  "dumps_compact fr v =
     encode \<lparr>float_repr = fr, indent = None, item_separator = '','', key_separator = '':''\<rparr> 0 v"

definition dumps_indent :: "(real \<Rightarrow> string) \<Rightarrow> nat \<Rightarrow> pyval \<Rightarrow> string" where
  "dumps_indent fr n v =
     encode \<lparr>float_repr = fr, indent = Some n, item_separator = '','', key_separator = '': ''\<rparr> 0 v"

section \<open>Static host information: \<open>get_static_info\<close>\<close>

text \<open>\<open>s.strip()\<close>, \<open>s.strip(q)\<close> for one character, \<open>s.split(sep)\<close> and \<open>s.split(sep, 1)[1]\<close>
  (\<open>None\<close> for the \<open>IndexError\<close> when \<open>sep\<close> does not occur).\<close>

definition py_strip :: "string \<Rightarrow> string" where
  "py_strip s = rev (dropWhile is_space (rev (dropWhile is_space s)))"

definition py_strip_char :: "char \<Rightarrow> string \<Rightarrow> string" where
  "py_strip_char q s = rev (dropWhile (\<lambda>c. c = q) (rev (dropWhile (\<lambda>c. c = q) s)))"

fun split_on :: "char \<Rightarrow> string \<Rightarrow> string list" where
  "split_on sep [] = [[]]"
| "split_on sep (c # cs) =
     (if c = sep then [] # split_on sep cs
      else (case split_on sep cs of w # ws \<Rightarrow> (c # w) # ws | [] \<Rightarrow> [[c]]))"

definition after_first :: "char \<Rightarrow> string \<Rightarrow> string option" where
  "after_first sep s = (if sep \<in> set s then Some (tl (dropWhile (\<lambda>c. c \<noteq> sep) s)) else None)"

text \<open>
  What the function reads: the host name, \<open>os.uname().machine\<close>, \<open>os.cpu_count()\<close>, the
  page size, and the lines of \<open>/proc/cpuinfo\<close> and \<open>/etc/os-release\<close>. A file is \<open>None\<close>
  when opening or reading it raises before the line looked for is found.
\<close>

record host =
  hostname :: string
  machine :: string
  os_cpu_count :: "int option"
  sc_page_size :: int
  cpuinfo :: "string list option"
  os_release :: "string list option"

text \<open>
  The model name keeps its initial value \<open>'unknown'\<close> unless a line starts with
  \<open>model name\<close> and has a colon.
\<close>

definition cpu_model_of :: "string list option \<Rightarrow> string" where
  "cpu_model_of file =
     (case file of
        None \<Rightarrow> ''unknown''
      | Some lines \<Rightarrow>
         (case find (prefix ''model name'') lines of
            None \<Rightarrow> ''unknown''
          | Some line \<Rightarrow>
             (case after_first (CHR '':'') line of
                None \<Rightarrow> ''unknown''
              | Some r \<Rightarrow> py_strip r)))"

text \<open>
  The key \<open>'os'\<close> has no initial value: it is set from the first line starting with
  \<open>PRETTY_NAME=\<close>, or to \<open>'Linux'\<close> in the \<open>except\<close> branch. When the file is read to
  its end and has no such line, the key is not set.
\<close>

definition os_entry :: "string list option \<Rightarrow> (string \<times> pyval) list" where
  "os_entry file =
     (case file of
        None \<Rightarrow> [(''os'', PStr ''Linux'')]
      | Some lines \<Rightarrow>
         (case find (prefix ''PRETTY_NAME='') lines of
            None \<Rightarrow> []
          | Some line \<Rightarrow>
             (case after_first (CHR ''='') line of
                None \<Rightarrow> [(''os'', PStr ''Linux'')]
              | Some r \<Rightarrow> [(''os'', PStr (py_strip_char (CHR 0x22) (py_strip r)))])))"

text \<open>The dictionary \<open>info\<close>, as the list of its items.\<close>

definition get_static_info :: "host \<Rightarrow> (string \<times> pyval) list" where
  "get_static_info h =
     [(''hostname'', PStr (hostname h)),
      (''arch'', PStr (machine h)),
      (''cpu_model'', PStr (cpu_model_of (cpuinfo h))),
      (''cpu_count'', PInt (case os_cpu_count h of None \<Rightarrow> 1 | Some n \<Rightarrow> if n = 0 then 1 else n)),
      (''page_size'', PInt (sc_page_size h))]
     @ os_entry (os_release h)"

section \<open>The snapshot: \<open>collect_metrics\<close>\<close>

text \<open>\<open>d[key]\<close> on a dictionary.\<close>

definition py_getitem :: "(string \<times> pyval) list \<Rightarrow> string \<Rightarrow> py_error + pyval" where
  "py_getitem d key = (case map_of d key of None \<Rightarrow> Inl KeyError | Some v \<Rightarrow> Inr v)"

text \<open>
  Each collector catches its own exceptions and returns a value, so the dictionary
  \<open>results\<close> of the pass is a record of the fifteen values returned. \<open>get_memory\<close> returns
  a dictionary with exactly the keys \<open>'memory'\<close> and \<open>'swap'\<close> on both of its paths.
\<close>

record mem_result =
  memory :: pyval
  swap :: pyval

record results =
  r_uptime :: pyval
  r_cpu :: pyval
  r_cpu_freq :: pyval
  r_temps :: pyval
  r_memory :: mem_result
  r_filesystems :: pyval
  r_disk_io :: pyval
  r_network :: pyval
  r_tcp :: pyval
  r_load :: pyval
  r_fds :: pyval
  r_entropy :: pyval
  r_processes :: pyval
  r_containers :: pyval
  r_logs :: pyval

definition AGENT_VERSION :: string where
  "AGENT_VERSION = ''1.0.0''"

text \<open>
  The assembly. \<open>utcnow\<close> is \<open>datetime.utcnow().isoformat()\<close>. The dictionary \<open>static\<close> is
  indexed with five keys, and a missing key raises \<open>KeyError\<close>; the optional entries are
  added after the fixed ones.
\<close>

definition collect_metrics :: "host \<Rightarrow> string \<Rightarrow> results \<Rightarrow> py_error + (string \<times> pyval) list" where
  "collect_metrics h utcnow res =
     (let static = get_static_info h; mem_data = r_memory res in
      case (py_getitem static ''hostname'', py_getitem static ''os'', py_getitem static ''arch'',
            py_getitem static ''cpu_model'', py_getitem static ''cpu_count'') of
        (Inr s_hostname, Inr s_os, Inr s_arch, Inr s_cpu_model, Inr s_cpu_count) \<Rightarrow>
          Inr ([(''agent_version'', PStr AGENT_VERSION),
                (''timestamp'', PStr (utcnow @ ''Z'')),
                (''hostname'', s_hostname),
                (''system'', PDict [(''os'', s_os), (''arch'', s_arch),
                                    (''cpu_model'', s_cpu_model), (''cpu_count'', s_cpu_count)]),
                (''uptime'', r_uptime res),
                (''cpu'', r_cpu res),
                (''memory'', memory mem_data),
                (''swap'', swap mem_data),
                (''load'', r_load res),
                (''filesystems'', r_filesystems res),
                (''disk_io'', r_disk_io res),
                (''network'', r_network res),
                (''tcp'', r_tcp res),
                (''processes'', r_processes res),
                (''containers'', r_containers res),
                (''logs'', r_logs res)]
               @ (if truthy (r_cpu_freq res) then [(''cpu_freq'', r_cpu_freq res)] else [])
               @ (if truthy (r_temps res) then [(''temperatures'', r_temps res)] else [])
               @ (if truthy (r_fds res) then [(''file_descriptors'', r_fds res)] else [])
               @ (if r_entropy res \<noteq> PNone then [(''entropy'', r_entropy res)] else []))
      | _ \<Rightarrow> Inl KeyError)"

section \<open>The HTTP handler: \<open>do_GET\<close>\<close>

text \<open>
  The handler either sends a response it has built, or calls \<open>send_error\<close> with a status
  code, or lets an exception escape, in which case nothing is sent.
\<close>

record http_response =
  resp_status :: nat
  resp_headers :: "(string \<times> string) list"
  resp_body :: string

datatype handler_result = Sent http_response | SendError nat | Raised py_error

definition do_GET :: "(real \<Rightarrow> string) \<Rightarrow> host \<Rightarrow> string \<Rightarrow> results \<Rightarrow> string \<Rightarrow> handler_result" where
  "do_GET fr h utcnow res self_path =
     (let path = hd (split_on (CHR ''?'') self_path);
          query = (if CHR ''?'' \<in> set self_path then split_on (CHR ''?'') self_path ! 1 else []);
          compact = (sublist ''compact=1'' query \<or> sublist ''compact=true'' query)
      in if path = ''/metrics''
         then (case collect_metrics h utcnow res of
                 Inl e \<Rightarrow> Raised e
               | Inr metrics \<Rightarrow>
                  (let body = (if compact then dumps_compact fr (PDict metrics)
                               else dumps_indent fr 2 (PDict metrics))
                   in Sent \<lparr>resp_status = 200,
                            resp_headers = [(''Content-Type'', ''application/json''),
                                            (''Content-Length'', str_of_nat (length body)),
                                            (''Cache-Control'', ''no-cache, no-store'')],
                            resp_body = body\<rparr>))
         else if path = ''/health''
         then Sent \<lparr>resp_status = 200,
                   resp_headers = [(''Content-Type'', ''text/plain''),
                                   (''Content-Length'', str_of_nat (length ''OK''))],
                   resp_body = ''OK''\<rparr>
         else SendError 404)"

subsection \<open>Two hosts and a pass\<close>

text \<open>
  A host whose \<open>/etc/os-release\<close> is readable and has no \<open>PRETTY_NAME\<close> line, the same
  host with one, and a pass in which every collector returned its default.
\<close>

definition bare_host :: host where
  "bare_host =
     \<lparr>hostname = ''box'', machine = ''x86_64'', os_cpu_count = Some 4, sc_page_size = 4096,
      cpuinfo = Some [''processor : 0'' @ [LF], ''model name : Fast CPU'' @ [LF]],
      os_release = Some [''NAME=Alpine'' @ [LF], ''ID=alpine'' @ [LF]]\<rparr>"

definition pretty_host :: host where
  \<open>pretty_host = bare_host\<lparr>os_release := Some [''NAME=Debian'' @ [LF], ''PRETTY_NAME="Debian GNU/Linux 12"'' @ [LF]]\<rparr>\<close>

definition idle_results :: results where
  "idle_results =
     \<lparr>r_uptime = PDict [(''uptime_seconds'', PInt 0), (''boot_time'', PInt 0)],
      r_cpu = PDict [(''percent'', PInt 0), (''cores'', PList []), (''context_switches_sec'', PInt 0)],
      r_cpu_freq = PNone,
      r_temps = PNone,
      r_memory = \<lparr>memory = PDict [(''total'', PInt 0), (''used'', PInt 0), (''percent'', PInt 0)],
                   swap = PDict [(''total'', PInt 0), (''used'', PInt 0), (''percent'', PInt 0)]\<rparr>,
      r_filesystems = PList [],
      r_disk_io = PList [],
      r_network = PList [],
      r_tcp = PDict [(''total'', PInt 0)],
      r_load = PDict [(''load1'', PInt 0), (''load5'', PInt 0), (''load15'', PInt 0)],
      r_fds = PNone,
      r_entropy = PInt 0,
      r_processes = PList [],
      r_containers = PList [],
      r_logs = PList []\<rparr>"

section \<open>The tokens of a JSON text\<close>














section \<open>Properties of the trackers\<close>

text \<open>
  C3. For a key stored with the pair \<open>(v1, t1)\<close>, an update with value \<open>v2\<close> at a later
  monotonic time \<open>t2 > t1\<close> returns exactly \<open>(v2 - v1) / (t2 - t1)\<close>; a negative value delta
  is not clamped and comes back as a negative rate.
\<close>

theorem DeltaTracker_update_rate:
  assumes "data key = Some (v1, t1)" and "t1 < t2"
  shows "fst (DeltaTracker_update data t2 key v2) = of_int (v2 - v1) / (t2 - t1)
       \<and> (v2 < v1 \<longrightarrow> fst (DeltaTracker_update data t2 key v2) < 0)"
  using assms by (simp add: DeltaTracker_update_def Let_def divide_neg_pos)

theorem DeltaTracker_update_rate_witness:
  "(Map.empty(''ctxt'' \<mapsto> (10::int, 1::real))) ''ctxt'' = Some (10, 1) \<and> (1::real) < 3
   \<and> fst (DeltaTracker_update (Map.empty(''ctxt'' \<mapsto> (10, 1))) 3 ''ctxt'' 4) = - 3
   \<and> fst (DeltaTracker_update (Map.empty(''ctxt'' \<mapsto> (10, 1))) 3 ''ctxt'' 4) < 0"
  using DeltaTracker_update_rate [of "Map.empty(''ctxt'' \<mapsto> (10, 1))" "''ctxt''" 10 1 3 4]
  by simp

text \<open>
  C4. For a key already stored, an update at a monotonic time equal to the stored
  timestamp returns \<open>0.0\<close> and still replaces the stored pair with \<open>(v2, now)\<close>.
\<close>

theorem DeltaTracker_update_same_time:
  assumes "data key = Some (v1, t1)"
  shows "fst (DeltaTracker_update data t1 key v2) = 0
       \<and> snd (DeltaTracker_update data t1 key v2) key = Some (v2, t1)"
  using assms by (simp add: DeltaTracker_update_def)

theorem DeltaTracker_update_same_time_witness:
  "fst (DeltaTracker_update (Map.empty(''ctxt'' \<mapsto> (10, 1))) 1 ''ctxt'' 4) = 0
   \<and> snd (DeltaTracker_update (Map.empty(''ctxt'' \<mapsto> (10, 1))) 1 ''ctxt'' 4) ''ctxt'' = Some (4, 1)"
  using DeltaTracker_update_same_time [of "Map.empty(''ctxt'' \<mapsto> (10, 1))" "''ctxt''" 10 1 4]
  by simp

text \<open>
  C7. For a key never seen before, the update returns \<open>0.0\<close>, and afterwards the key is
  in the tracker's dictionary with the stored pair \<open>(v, now)\<close>.
\<close>

theorem DeltaTracker_update_first:
  assumes "data key = None"
  shows "fst (DeltaTracker_update data now key v) = 0
       \<and> key \<in> dom (snd (DeltaTracker_update data now key v))
       \<and> snd (DeltaTracker_update data now key v) key = Some (v, now)"
  using assms by (simp add: DeltaTracker_update_def)

theorem DeltaTracker_update_first_witness:
  "fst (DeltaTracker_update Map.empty 5 ''ctxt'' 7) = 0
   \<and> ''ctxt'' \<in> dom (snd (DeltaTracker_update Map.empty 5 ''ctxt'' 7))
   \<and> snd (DeltaTracker_update Map.empty 5 ''ctxt'' 7) ''ctxt'' = Some (7, 5)"
  using DeltaTracker_update_first [of Map.empty "''ctxt''" 5 7]
  by simp


section \<open>Properties of binary floating point and of CoreTracker\<close>

subsection \<open>Rounding\<close>

text \<open>
  The rounded integer is within one half of the argument, and at exactly one half it is
  even.
\<close>

lemma round_half_even_near: "\<bar>x - of_int (round_half_even x)\<bar> \<le> 1 / 2"
  unfolding round_half_even_def Let_def by (auto; linarith)

lemma round_half_even_tie:
  "\<bar>x - of_int (round_half_even x)\<bar> = 1 / 2 \<Longrightarrow> even (round_half_even x)"
proof -
  assume a: "\<bar>x - of_int (round_half_even x)\<bar> = 1 / 2"
  define f where "f = \<lfloor>x\<rfloor>"
  define d where "d = x - of_int f"
  have d: "0 \<le> d" "d < 1" by (simp_all add: d_def f_def) linarith
  have x: "x = of_int f + d" by (simp add: d_def)
  have r: "round_half_even x = (if d < 1 / 2 then f else if 1 / 2 < d then f + 1
                                else if even f then f else f + 1)"
    by (simp add: round_half_even_def Let_def f_def d_def)
  have e: "x - of_int (round_half_even x) = (if d < 1 / 2 then d else if 1 / 2 < d then d - 1
                                else if even f then d else d - 1)"
    unfolding r by (simp add: d_def)
  show ?thesis
  proof (cases "d = 1 / 2")
    case True
    then show ?thesis by (simp add: r)
  next
    case False
    then have "\<bar>x - of_int (round_half_even x)\<bar> \<noteq> 1 / 2"
      unfolding e using d by (simp split: if_splits)
    then show ?thesis using a by simp
  qed
qed

text \<open>The binary exponent brackets the argument between two powers of two.\<close>

lemma pow2_pos: "0 < pow2 e"
  by (simp add: pow2_def)

lemma pow2_nat: "0 \<le> e \<Longrightarrow> pow2 e = 2 ^ nat e"
  by (simp add: pow2_def)

lemma pow2_add: "pow2 (a + b) = pow2 a * pow2 b"
  unfolding pow2_def
  by (auto simp: power_add [symmetric] nat_add_distrib field_simps power_diff
           simp del: power_add)

lemma ilog2_bounds:
  assumes "x \<noteq> 0"
  shows "pow2 (ilog2 x) \<le> \<bar>x\<bar> \<and> \<bar>x\<bar> < pow2 (ilog2 x + 1)"
proof (cases "1 \<le> \<bar>x\<bar>")
  case True
  define n where "n = \<lfloor>\<bar>x\<bar>\<rfloor>"
  have n1: "1 \<le> n" using True by (simp add: n_def le_floor_iff)
  then have b: "2 ^ nat (bitlen n - 1) \<le> n" "n < 2 ^ nat (bitlen n)"
    using bitlen_bounds [of n] by simp_all
  have bl: "1 \<le> bitlen n"
  proof (rule ccontr)
    assume "\<not> 1 \<le> bitlen n"
    then have "nat (bitlen n) = 0" by simp
    then show False using b(2) n1 by simp
  qed
  have i: "ilog2 x = bitlen n - 1" using True by (simp add: ilog2_def n_def)
  have "(2::real) ^ nat (bitlen n - 1) \<le> real_of_int n"
    using b(1) of_int_le_iff [of "2 ^ nat (bitlen n - 1)" n, where ?'a = real] by simp
  moreover have "real_of_int n \<le> \<bar>x\<bar>" by (simp add: n_def)
  ultimately have "(2::real) ^ nat (bitlen n - 1) \<le> \<bar>x\<bar>" by (rule order_trans)
  then have lo: "pow2 (bitlen n - 1) \<le> \<bar>x\<bar>" using bl by (simp add: pow2_def)
  have "n + 1 \<le> 2 ^ nat (bitlen n)" using b(2) by simp
  then have "real_of_int (n + 1) \<le> (2::real) ^ nat (bitlen n)"
    using of_int_le_iff [of "n + 1" "2 ^ nat (bitlen n)", where ?'a = real] by simp
  moreover have "\<bar>x\<bar> < real_of_int (n + 1)" by (simp add: n_def)
  ultimately have "\<bar>x\<bar> < (2::real) ^ nat (bitlen n)" by (rule less_le_trans [rotated])
  then have hi: "\<bar>x\<bar> < pow2 (bitlen n)" using bl by (simp add: pow2_def)
  show ?thesis using lo hi by (simp add: i)
next
  case False
  define y where "y = 1 / \<bar>x\<bar>"
  define m where "m = \<lceil>y\<rceil> - 1"
  have xp: "0 < \<bar>x\<bar>" using assms by simp
  have y1: "1 < y" using False xp by (simp add: y_def)
  have m1: "1 \<le> m" using y1 by (simp add: m_def less_ceiling_iff)
  have my: "real_of_int m < y" "y \<le> real_of_int (m + 1)"
    by (simp_all add: m_def ceiling_correct less_ceiling_iff [symmetric])
  have b: "2 ^ nat (bitlen m - 1) \<le> m" "m < 2 ^ nat (bitlen m)"
    using bitlen_bounds [of m] m1 by simp_all
  have bl: "1 \<le> bitlen m"
  proof (rule ccontr)
    assume "\<not> 1 \<le> bitlen m"
    then have "nat (bitlen m) = 0" by simp
    then show False using b(2) m1 by simp
  qed
  have i: "ilog2 x = - bitlen m" using False by (simp add: ilog2_def m_def y_def)
  have "m + 1 \<le> 2 ^ nat (bitlen m)" using b(2) by simp
  then have "real_of_int (m + 1) \<le> (2::real) ^ nat (bitlen m)"
    using of_int_le_iff [of "m + 1" "2 ^ nat (bitlen m)", where ?'a = real] by simp
  then have "y \<le> 2 ^ nat (bitlen m)" using my(2) by (rule order_trans [rotated])
  then have "1 / 2 ^ nat (bitlen m) \<le> \<bar>x\<bar>"
    using xp by (simp add: y_def field_simps)
  then have lo: "pow2 (- bitlen m) \<le> \<bar>x\<bar>" using bl by (simp add: pow2_def)
  have "(2::real) ^ nat (bitlen m - 1) \<le> real_of_int m"
    using b(1) of_int_le_iff [of "2 ^ nat (bitlen m - 1)" m, where ?'a = real] by simp
  then have "2 ^ nat (bitlen m - 1) < y" using my(1) by (rule le_less_trans)
  then have h: "\<bar>x\<bar> < 1 / 2 ^ nat (bitlen m - 1)"
    using xp by (simp add: y_def field_simps)
  have "pow2 (- bitlen m + 1) = 1 / 2 ^ nat (bitlen m - 1)"
    using bl by (cases "bitlen m = 1") (simp_all add: pow2_def)
  then have hi: "\<bar>x\<bar> < pow2 (- bitlen m + 1)" using h by simp
  show ?thesis using lo hi by (simp add: i)
qed

text \<open>
  The binary64 rounding of \<open>x\<close> is within half a unit in the last place of \<open>x\<close>.
\<close>

lemma round_binary64_near:
  "x \<noteq> 0 \<Longrightarrow> \<bar>round_binary64 x - x\<bar> \<le> pow2 (max (ilog2 x - 52) (- 1074)) / 2"
proof -
  assume x: "x \<noteq> 0"
  define p where "p = pow2 (max (ilog2 x - 52) (- 1074))"
  have p: "0 < p" by (simp add: p_def pow2_pos)
  have "\<bar>x / p - of_int (round_half_even (x / p))\<bar> \<le> 1 / 2" by (rule round_half_even_near)
  then have "\<bar>x / p - of_int (round_half_even (x / p))\<bar> * p \<le> 1 / 2 * p"
    using p by (intro mult_right_mono) simp_all
  moreover have "\<bar>x / p - of_int (round_half_even (x / p))\<bar> * p
                  = \<bar>of_int (round_half_even (x / p)) * p - x\<bar>"
    using p by (simp add: abs_mult [symmetric] field_simps abs_minus_commute del: abs_mult)
  ultimately show ?thesis using x by (simp add: round_binary64_def Let_def p_def)
qed

text \<open>
  What \<open>round(y, 1)\<close> returns: the float nearest to \<open>k / 10\<close>, where \<open>k\<close> is the integer
  nearest to \<open>10 * y\<close>, the even one at a tie.
\<close>

lemma float_round_spec:
  assumes "float_round (Float y) 1 = Inr (Float r)"
  shows "\<exists>k::int. \<bar>y * 10 - of_int k\<bar> \<le> 1 / 2 \<and> (\<bar>y * 10 - of_int k\<bar> = 1 / 2 \<longrightarrow> even k)
           \<and> r = round_binary64 (of_int k / 10)"
proof -
  have "to_float (of_int (round_half_even (y * 10)) / 10) = Float r"
    using assms by (simp add: float_round_def split: pyfloat.splits)
  then have "r = round_binary64 (of_int (round_half_even (y * 10)) / 10)"
    by (simp add: to_float_def Let_def split: if_splits)
  then show ?thesis
    using round_half_even_near [of "y * 10"] round_half_even_tie [of "y * 10"] by blast
qed

subsection \<open>Evaluating the operations\<close>

lemma bitlen_numeral: "bitlen (numeral n) = bitlen (numeral n div 2) + 1"
  by (subst compute_bitlen) simp

lemma bitlen_one: "bitlen 1 = 1"
  by (subst compute_bitlen) simp

lemmas bitlen_eval = bitlen_numeral bitlen_one

lemma round_binary64_eval:
  "x \<noteq> 0 \<Longrightarrow> ilog2 x = k \<Longrightarrow> round_half_even (x / pow2 (max (k - 52) (- 1074))) = m \<Longrightarrow>
   round_binary64 x = of_int m * pow2 (max (k - 52) (- 1074))"
  by (simp add: round_binary64_def Let_def)

lemma to_float_finite:
  "round_binary64 x = r \<Longrightarrow> \<bar>r\<bar> \<le> max_float \<Longrightarrow> to_float x = Float r"
  by (auto simp: to_float_def Let_def)

lemma max_float_big: "2 ^ 100 \<le> max_float"
proof -
  have "(2::real) ^ 100 \<le> 2 ^ 971" by (rule power_increasing) simp_all
  also have "\<dots> \<le> (2 ^ 53 - 1) * 2 ^ 971" by simp
  finally show ?thesis by (simp add: max_float_def)
qed

lemma to_float_small:
  "round_binary64 x = r \<Longrightarrow> \<bar>r\<bar> \<le> 2 ^ 100 \<Longrightarrow> to_float x = Float r"
  using max_float_big by (intro to_float_finite) auto

lemma to_float_eval:
  "x \<noteq> 0 \<Longrightarrow> ilog2 x = k \<Longrightarrow> round_half_even (x / pow2 (max (k - 52) (- 1074))) = m \<Longrightarrow>
   of_int m * pow2 (max (k - 52) (- 1074)) = r \<Longrightarrow> \<bar>r\<bar> \<le> 2 ^ 100 \<Longrightarrow> to_float x = Float r"
  using round_binary64_eval [of x k m] to_float_small [of x r] by simp

lemma float_round_eval:
  "round_half_even (y * 10) = k \<Longrightarrow> to_float (of_int k / 10) = Float r \<Longrightarrow>
   float_round (Float y) 1 = Inr (Float r)"
  by (simp add: float_round_def)

lemma CoreTracker_update_steps:
  "cores core_id = Some (idle1, total1) \<Longrightarrow> 0 < total2 - total1 \<Longrightarrow>
   int_truediv (idle2 - idle1) (total2 - total1) = Inr q \<Longrightarrow> float_sub 1 q = Float s \<Longrightarrow>
   float_mul (Float s) 100 = Float p \<Longrightarrow> float_round (Float p) 1 = Inr (Float r) \<Longrightarrow>
   fst (CoreTracker_update cores core_id idle2 total2) = Inr (Float r)"
  by (simp add: CoreTracker_update_def)

lemma CoreTracker_update_new: "snd (CoreTracker_update Map.empty c i t) c = Some (i, t)"
  by (simp add: CoreTracker_update_def)

lemma q_29_80:
  "int_truediv 29 80 = Inr (6530219459687219 / 18014398509481984)"
proof -
  have "to_float (29 / 80) = Float (6530219459687219 / 18014398509481984)"
    by (rule to_float_eval [where k = "- 2" and m = 6530219459687219])
       (simp_all add: ilog2_def bitlen_eval pow2_def round_half_even_def)
  then show ?thesis by (simp add: int_truediv_def)
qed

lemma s_29_80:
  "float_sub 1 (6530219459687219 / 18014398509481984) = Float (2871044762448691 / 4503599627370496)"
proof -
  have "to_float (11484179049794765 / 18014398509481984) = Float (2871044762448691 / 4503599627370496)"
    by (rule to_float_eval [where k = "- 1" and m = 5742089524897382])
       (simp_all add: ilog2_def bitlen_eval pow2_def round_half_even_def)
  then show ?thesis by (simp add: float_sub_def)
qed

lemma m_29_80:
  "float_mul (Float (2871044762448691 / 4503599627370496)) 100 = Float (8972014882652159 / 140737488355328)"
proof -
  have "to_float (71776119061217275 / 1125899906842624) = Float (8972014882652159 / 140737488355328)"
    by (rule to_float_eval [where k = "5" and m = 8972014882652159])
       (simp_all add: ilog2_def bitlen_eval pow2_def round_half_even_def)
  then show ?thesis by (simp add: float_mul_def)
qed

lemma r_29_80:
  "float_round (Float (8972014882652159 / 140737488355328)) 1 = Inr (Float (4482489004117197 / 70368744177664))"
proof -
  have d: "round_half_even (8972014882652159 / 140737488355328 * 10) = 637"
    by (simp add: round_half_even_def)
  have t: "to_float (real_of_int 637 / 10) = Float (4482489004117197 / 70368744177664)"
    by (rule to_float_eval [where k = "5" and m = 8964978008234394])
       (simp_all add: ilog2_def bitlen_eval pow2_def round_half_even_def)
  show ?thesis by (rule float_round_eval [OF d t])
qed

lemma q_15_16:
  "int_truediv 15 16 = Inr (15 / 16)"
proof -
  have "to_float (15 / 16) = Float (15 / 16)"
    by (rule to_float_eval [where k = "- 1" and m = 8444249301319680])
       (simp_all add: ilog2_def bitlen_eval pow2_def round_half_even_def)
  then show ?thesis by (simp add: int_truediv_def)
qed

lemma s_15_16:
  "float_sub 1 (15 / 16) = Float (1 / 16)"
proof -
  have "to_float (1 / 16) = Float (1 / 16)"
    by (rule to_float_eval [where k = "- 4" and m = 4503599627370496])
       (simp_all add: ilog2_def bitlen_eval pow2_def round_half_even_def)
  then show ?thesis by (simp add: float_sub_def)
qed

lemma m_15_16:
  "float_mul (Float (1 / 16)) 100 = Float (25 / 4)"
proof -
  have "to_float (25 / 4) = Float (25 / 4)"
    by (rule to_float_eval [where k = "2" and m = 7036874417766400])
       (simp_all add: ilog2_def bitlen_eval pow2_def round_half_even_def)
  then show ?thesis by (simp add: float_mul_def)
qed

lemma r_15_16:
  "float_round (Float (25 / 4)) 1 = Inr (Float (6980579422424269 / 1125899906842624))"
proof -
  have d: "round_half_even (25 / 4 * 10) = 62"
    by (simp add: round_half_even_def)
  have t: "to_float (real_of_int 62 / 10) = Float (6980579422424269 / 1125899906842624)"
    by (rule to_float_eval [where k = "2" and m = 6980579422424269])
       (simp_all add: ilog2_def bitlen_eval pow2_def round_half_even_def)
  show ?thesis by (rule float_round_eval [OF d t])
qed

lemma q_50_100:
  "int_truediv 50 100 = Inr (1 / 2)"
proof -
  have "to_float (1 / 2) = Float (1 / 2)"
    by (rule to_float_eval [where k = "- 1" and m = 4503599627370496])
       (simp_all add: ilog2_def bitlen_eval pow2_def round_half_even_def)
  then show ?thesis by (simp add: int_truediv_def)
qed

lemma s_50_100:
  "float_sub 1 (1 / 2) = Float (1 / 2)"
proof -
  have "to_float (1 / 2) = Float (1 / 2)"
    by (rule to_float_eval [where k = "- 1" and m = 4503599627370496])
       (simp_all add: ilog2_def bitlen_eval pow2_def round_half_even_def)
  then show ?thesis by (simp add: float_sub_def)
qed

lemma m_50_100:
  "float_mul (Float (1 / 2)) 100 = Float (50)"
proof -
  have "to_float (50) = Float (50)"
    by (rule to_float_eval [where k = "5" and m = 7036874417766400])
       (simp_all add: ilog2_def bitlen_eval pow2_def round_half_even_def)
  then show ?thesis by (simp add: float_mul_def)
qed

lemma r_50_100:
  "float_round (Float (50)) 1 = Inr (Float (50))"
proof -
  have d: "round_half_even (50 * 10) = 500"
    by (simp add: round_half_even_def)
  have t: "to_float (real_of_int 500 / 10) = Float (50)"
    by (rule to_float_eval [where k = "5" and m = 7036874417766400])
       (simp_all add: ilog2_def bitlen_eval pow2_def round_half_even_def)
  show ?thesis by (rule float_round_eval [OF d t])
qed

lemma usage_50_100:
  "fst (CoreTracker_update (snd (CoreTracker_update Map.empty c 100 200)) c 150 300) = Inr (Float 50)"
  by (rule CoreTracker_update_steps [OF CoreTracker_update_new _ _ s_50_100 m_50_100 r_50_100])
     (simp_all add: q_50_100)

subsection \<open>The usage\<close>

text \<open>
  C5. For a core already stored with the pair \<open>(idle1, total1)\<close>, the update returns
  \<open>round((1.0 - (idle2 - idle1) / (total2 - total1)) * 100, 1)\<close> when \<open>total2 - total1 > 0\<close>
  and \<open>0.0\<close> otherwise, every operation being the one of binary64 floats: the quotient
  of the two integers, the difference from \<open>1.0\<close>, the product with \<open>100\<close>, and the
  rounding to one decimal place. The rounding returns the float nearest to \<open>k / 10\<close>
  for the integer \<open>k\<close> nearest to ten times the product \<open>y\<close>, the even one at a tie. The
  observations \<open>(100, 200)\<close> then \<open>(150, 300)\<close> of one core give \<open>50.0\<close>.
\<close>

theorem CoreTracker_update_usage:
  "(cores core_id = Some (idle1, total1) \<longrightarrow>
      fst (CoreTracker_update cores core_id idle2 total2) =
        (if 0 < total2 - total1
         then (case int_truediv (idle2 - idle1) (total2 - total1) of
                 Inl e \<Rightarrow> Inl e
               | Inr q \<Rightarrow> float_round (float_mul (float_sub 1 q) 100) 1)
         else Inr (Float 0)))
   \<and> (cores core_id = Some (idle1, total1) \<and> 0 < total2 - total1
        \<and> int_truediv (idle2 - idle1) (total2 - total1) = Inr q
        \<and> float_mul (float_sub 1 q) 100 = Float y
        \<and> fst (CoreTracker_update cores core_id idle2 total2) = Inr (Float r)
      \<longrightarrow> (\<exists>k::int. \<bar>y * 10 - of_int k\<bar> \<le> 1 / 2
                    \<and> (\<bar>y * 10 - of_int k\<bar> = 1 / 2 \<longrightarrow> even k)
                    \<and> r = round_binary64 (of_int k / 10)))
   \<and> fst (CoreTracker_update (snd (CoreTracker_update Map.empty c 100 200)) c 150 300)
       = Inr (Float 50)"
proof -
  have a: "fst (CoreTracker_update cores core_id idle2 total2) =
        (if 0 < total2 - total1
         then (case int_truediv (idle2 - idle1) (total2 - total1) of
                 Inl e \<Rightarrow> Inl e
               | Inr q \<Rightarrow> float_round (float_mul (float_sub 1 q) 100) 1)
         else Inr (Float 0))" if "cores core_id = Some (idle1, total1)"
    using that by (simp add: CoreTracker_update_def Let_def)
  have b: "\<exists>k::int. \<bar>y * 10 - of_int k\<bar> \<le> 1 / 2
             \<and> (\<bar>y * 10 - of_int k\<bar> = 1 / 2 \<longrightarrow> even k)
             \<and> r = round_binary64 (of_int k / 10)"
    if "cores core_id = Some (idle1, total1)" "0 < total2 - total1"
       "int_truediv (idle2 - idle1) (total2 - total1) = Inr q"
       "float_mul (float_sub 1 q) 100 = Float y"
       "fst (CoreTracker_update cores core_id idle2 total2) = Inr (Float r)"
  proof -
    have "float_round (Float y) 1 = Inr (Float r)"
      using a [OF that(1)] that(2,3,4,5) by simp
    then show ?thesis by (rule float_round_spec)
  qed
  show ?thesis using a b usage_50_100 by blast
qed

text \<open>
  A core stored with \<open>(0, 0)\<close>: idle 29 of total 80 gives the float \<open>63.7\<close> (the product
  before rounding is the float just below \<open>63.75\<close>), idle 15 of total 16 gives the float
  \<open>6.2\<close> (the product is exactly \<open>6.25\<close>, a tie), and an unchanged total gives \<open>0.0\<close>.
\<close>

theorem CoreTracker_update_usage_witness:
  "(Map.empty(0 \<mapsto> (0::int, 0::int))) (0::int) = Some (0, 0)
   \<and> fst (CoreTracker_update (Map.empty(0 \<mapsto> (0, 0))) 0 29 80)
       = Inr (Float (4482489004117197 / 70368744177664))
   \<and> fst (CoreTracker_update (Map.empty(0 \<mapsto> (0, 0))) 0 15 16)
       = Inr (Float (6980579422424269 / 1125899906842624))
   \<and> fst (CoreTracker_update (Map.empty(0 \<mapsto> (0, 0))) 0 15 0) = Inr (Float 0)"
  using CoreTracker_update_usage [of "Map.empty(0 \<mapsto> (0, 0))" 0 0 0 29 80]
        CoreTracker_update_usage [of "Map.empty(0 \<mapsto> (0, 0))" 0 0 0 15 16]
        CoreTracker_update_usage [of "Map.empty(0 \<mapsto> (0, 0))" 0 0 0 15 0]
  by (simp add: q_29_80 s_29_80 m_29_80 r_29_80 q_15_16 s_15_16 m_15_16 r_15_16
           del: One_nat_def)


section \<open>Properties of the Docker socket client\<close>

subsection \<open>The read loop\<close>

lemma received_0: "received recv 0 = []"
  by (simp add: received_def)

lemma received_Suc: "received recv (Suc n) = received recv n @ chunk_of (recv n)"
  by (simp add: received_def)

text \<open>
  The invariant of the loop, started after \<open>i\<close> calls with the bytes those calls delivered:
  it makes at most \<open>k\<close> further calls, goes on only past calls that meet no exit, and leaves
  early only at a call that meets one.
\<close>

lemma read_loop_inv:
  "response = received recv i \<Longrightarrow>
   i \<le> rl_reads (read_loop recv k i response)
   \<and> rl_reads (read_loop recv k i response) \<le> i + k
   \<and> rl_response (read_loop recv k i response) = received recv (rl_reads (read_loop recv k i response))
   \<and> (\<forall>j. i \<le> j \<and> Suc j < rl_reads (read_loop recv k i response) \<longrightarrow> \<not> stops_at recv j)
   \<and> (rl_reads (read_loop recv k i response) < i + k \<longrightarrow>
        i < rl_reads (read_loop recv k i response)
        \<and> stops_at recv (rl_reads (read_loop recv k i response) - 1))"
proof (induction k arbitrary: i response)
  case 0
  then show ?case by auto
next
  case (Suc k)
  show ?case
  proof (cases "recv i")
    case (Recv chunk)
    show ?thesis
    proof (cases "chunk = [] \<or> sublist chunk_end (response @ chunk) \<or> 50000 < length (response @ chunk)")
      case True
      then show ?thesis using Recv Suc.prems
        by (auto simp: received_Suc stops_at_def Let_def)
    next
      case False
      have r: "response @ chunk = received recv (Suc i)"
        using Recv Suc.prems by (simp add: received_Suc)
      have ns: "\<not> stops_at recv i"
        using False Recv Suc.prems by (simp add: stops_at_def received_Suc)
      have eq: "read_loop recv (Suc k) i response = read_loop recv k (Suc i) (response @ chunk)"
        using False Recv by (simp add: Let_def)
      note IH = Suc.IH [OF r]
      show ?thesis
        unfolding eq using IH ns
      proof (intro conjI allI impI)
        fix j assume "i \<le> j \<and> Suc j < rl_reads (read_loop recv k (Suc i) (response @ chunk))"
        then show "\<not> stops_at recv j"
          using IH ns by (cases "j = i") auto
      qed auto
    qed
  next
    case RecvTimeout
    then show ?thesis using Suc.prems by (auto simp: received_Suc stops_at_def)
  next
    case RecvError
    then show ?thesis using Suc.prems by (auto simp: received_Suc stops_at_def)
  qed
qed

lemma read_loop_length:
  "\<forall>i. recv_within 1024 (recv i) \<Longrightarrow> length response \<le> 50000 \<Longrightarrow>
   length (rl_response (read_loop recv k i response)) \<le> 51024"
proof (induction k arbitrary: i response)
  case 0
  then show ?case by simp
next
  case (Suc k)
  have b: "length (chunk_of (recv i)) \<le> 1024"
    using Suc.prems(1) by (simp add: recv_within_def)
  show ?case
  proof (cases "recv i")
    case (Recv chunk)
    then show ?thesis using Suc b by (auto simp: Let_def)
  qed (use Suc.prems in auto)
qed

text \<open>
  C6. For every peer, also one that never sends the terminating chunk, the read loop of
  \<open>get_containers\<close> returns after at most 100 calls of \<open>recv\<close>. It stops at the first call
  that times out, fails, returns no bytes, or after which the accumulated bytes contain
  \<open>\r\n0\r\n\r\n\<close> or are more than 50000; when no call among the first 100 does, it makes
  exactly 100. The bytes it holds are those the calls delivered, and with \<open>recv(1024)\<close>
  returning at most 1024 bytes they are at most 51024.
\<close>

theorem read_loop_bounded:
  "rl_reads (read_loop recv 100 0 []) \<le> 100
   \<and> (\<forall>k<100. stops_at recv k \<and> (\<forall>j<k. \<not> stops_at recv j) \<longrightarrow>
                 rl_reads (read_loop recv 100 0 []) = Suc k)
   \<and> ((\<forall>k<100. \<not> stops_at recv k) \<longrightarrow> rl_reads (read_loop recv 100 0 []) = 100)
   \<and> rl_response (read_loop recv 100 0 []) = received recv (rl_reads (read_loop recv 100 0 []))
   \<and> ((\<forall>i. recv_within 1024 (recv i)) \<longrightarrow> length (rl_response (read_loop recv 100 0 [])) \<le> 51024)"
proof -
  let ?n = "rl_reads (read_loop recv 100 0 [])"
  have inv: "?n \<le> 100"
    "rl_response (read_loop recv 100 0 []) = received recv ?n"
    "\<And>j. Suc j < ?n \<Longrightarrow> \<not> stops_at recv j"
    "?n < 100 \<Longrightarrow> 0 < ?n \<and> stops_at recv (?n - 1)"
    using read_loop_inv [of "[]" recv 0 100] by (simp_all add: received_0)
  have first: "?n = Suc k" if k: "k < 100" "stops_at recv k" "\<forall>j<k. \<not> stops_at recv j" for k
  proof -
    have "\<not> Suc k < ?n" using inv(3) k(2) by blast
    moreover have "\<not> ?n < Suc k"
    proof
      assume lt: "?n < Suc k"
      then have "?n < 100" using k(1) by simp
      then have "0 < ?n" "stops_at recv (?n - 1)" using inv(4) by simp_all
      moreover have "?n - 1 < k" using lt \<open>0 < ?n\<close> by simp
      ultimately show False using k(3) by blast
    qed
    ultimately show ?thesis by simp
  qed
  have none: "?n = 100" if "\<forall>k<100. \<not> stops_at recv k"
  proof (rule ccontr)
    assume "?n \<noteq> 100"
    then have "?n < 100" using inv(1) by simp
    then have "0 < ?n" "stops_at recv (?n - 1)" using inv(4) by simp_all
    then show False using that \<open>?n < 100\<close> by (simp add: less_imp_diff_less)
  qed
  have len: "length (rl_response (read_loop recv 100 0 [])) \<le> 51024"
    if "\<forall>i. recv_within 1024 (recv i)"
    using read_loop_length [OF that, of "[]" 100 0] by simp
  show ?thesis using inv(1,2) first none len by blast
qed

theorem read_loop_bounded_witness:
  "stops_at demo_peer 1 \<and> \<not> stops_at demo_peer 0
   \<and> (\<forall>i. recv_within 1024 (demo_peer i))
   \<and> rl_reads (read_loop demo_peer 100 0 []) = 2
   \<and> length (rl_response (read_loop demo_peer 100 0 [])) \<le> 51024"
proof -
  have a: "stops_at demo_peer 1"
    by (simp add: stops_at_def demo_peer_def received_def chunk_end_def CR_def LF_def sublist_code)
  have b0: "\<not> stops_at demo_peer 0"
    by (simp add: stops_at_def demo_peer_def received_def chunk_end_def CR_def LF_def sublist_code)
  then have b: "\<forall>j<1. \<not> stops_at demo_peer j" by simp
  have c: "\<forall>i. recv_within 1024 (demo_peer i)"
    by (simp add: demo_peer_def recv_within_def chunk_end_def)
  note t = read_loop_bounded [of demo_peer]
  from t have "\<forall>k<100. stops_at demo_peer k \<and> (\<forall>j<k. \<not> stops_at demo_peer j) \<longrightarrow>
                 rl_reads (read_loop demo_peer 100 0 []) = Suc k" by blast
  then have "rl_reads (read_loop demo_peer 100 0 []) = Suc 1" using a b by simp
  moreover from t c have "length (rl_response (read_loop demo_peer 100 0 [])) \<le> 51024" by blast
  ultimately show ?thesis using a b0 c by simp
qed

subsection \<open>Failures and the returned list\<close>

lemma read_loop_numeral:
  "read_loop recv (numeral n) i response =
     (case recv i of
        RecvTimeout \<Rightarrow> \<lparr>rl_error = None, rl_response = response, rl_reads = Suc i\<rparr>
      | RecvError \<Rightarrow> \<lparr>rl_error = Some OSError, rl_response = response, rl_reads = Suc i\<rparr>
      | Recv chunk \<Rightarrow>
          if chunk = [] then \<lparr>rl_error = None, rl_response = response, rl_reads = Suc i\<rparr>
          else let response' = response @ chunk
               in if sublist chunk_end response' \<or> 50000 < length response'
                  then \<lparr>rl_error = None, rl_response = response', rl_reads = Suc i\<rparr>
                  else read_loop recv (pred_numeral n) (Suc i) response')"
  by (simp only: numeral_eq_Suc read_loop.simps)

text \<open>The function step by step, when every step before the mapping loop succeeds.\<close>

lemma get_containers_steps:
  assumes "socket_ok env" "connect_ok env" "sendall_ok env" "close_ok env"
    and "read_loop (peer env) 100 0 [] = \<lparr>rl_error = None, rl_response = response, rl_reads = n\<rparr>"
    and "sublist header_end response"
    and "split_once header_end response = (headers, body)"
    and "py_find (CHR ''['') body = int start"
    and "bracket_scan body [start ..< min (length body) (start + 50000)] 0 start = json_end"
    and "decode_utf8 env (slice body start json_end) = Some text"
    and "json_loads env text = Some data"
    and "py_iter data = Inr items"
  shows "get_containers env = fst (map_containers items [])"
  using assms by (simp add: get_containers_def)

text \<open>
  A failure of any step before the mapping loop leaves the list empty: creating the
  socket, connecting, sending, reading, closing, finding the end of the headers, finding
  the opening bracket.
\<close>

lemma get_containers_early_failure:
  assumes "\<not> socket_ok env \<or> \<not> connect_ok env \<or> \<not> sendall_ok env \<or> \<not> close_ok env
         \<or> rl_error (read_loop (peer env) 100 0 []) \<noteq> None
         \<or> \<not> sublist header_end (rl_response (read_loop (peer env) 100 0 []))
         \<or> py_find (CHR ''['')
              (snd (split_once header_end (rl_response (read_loop (peer env) 100 0 [])))) < 0"
  shows "get_containers env = []"
  using assms by (auto simp: get_containers_def Let_def split: prod.splits)

text \<open>
  The list can be non-empty only when decoding, parsing and starting the iteration have
  all succeeded, and then it is what the mapping loop has built.
\<close>

lemma get_containers_cases:
  "get_containers env = [] \<or>
   (\<exists>text data items. json_loads env text = Some data \<and> py_iter data = Inr items
      \<and> get_containers env = fst (map_containers items []))"
  by (auto simp: get_containers_def Let_def split: prod.splits option.splits sum.splits)

text \<open>A loop in which no element raises runs to its end.\<close>

lemma map_containers_complete:
  "\<forall>x \<in> set items. \<forall>e. container_entry x \<noteq> Inl e \<Longrightarrow>
   snd (map_containers items containers) = None"
  by (induction items arbitrary: containers) (auto split: sum.splits option.splits)

lemma partial_env_read:
  "read_loop (peer partial_env) 100 0 [] =
     \<lparr>rl_error = None, rl_response = partial_headers @ header_end @ partial_body, rl_reads = 1\<rparr>"
  by (simp add: read_loop_numeral partial_env_def partial_headers_def partial_body_def
      header_end_def chunk_end_def CR_def LF_def partial_json_def sublist_code)

lemma partial_env_header_end:
  "sublist header_end (partial_headers @ header_end @ partial_body)"
  by simp

lemma partial_env_split:
  "split_once header_end (partial_headers @ header_end @ partial_body) =
     (partial_headers, partial_body)"
  by (simp add: partial_headers_def header_end_def CR_def LF_def)

lemma partial_env_find: "py_find (CHR ''['') partial_body = int 4"
  by (simp add: partial_body_def partial_json_def CR_def LF_def)

lemma partial_env_scan:
  "bracket_scan partial_body [4 ..< min (length partial_body) (4 + 50000)] 0 4 = 60"
  by (simp add: partial_body_def partial_json_def CR_def LF_def chunk_end_def)

lemma partial_env_slice: "slice partial_body 4 60 = partial_json"
  by (simp add: partial_body_def partial_json_def CR_def LF_def chunk_end_def slice_def)

text \<open>
  C1. The claim is that any failure, also one in the mapping of a single element, gives
  the empty list and never a partial one. Here the second element of the parsed array
  is the number 7: \<open>container.get\<close> raises \<open>AttributeError\<close> on it, after the first element
  has been appended, and the function returns the list holding that first element.
\<close>

theorem get_containers_partial_list:
  "map_containers [PDict [(''Names'', PList [PStr ''/web'']), (''Image'', PStr ''nginx''),
                          (''State'', PStr ''running'')], PInt 7] []
     = ([\<lparr>name = ''web'', status = PStr ''running'', image = PStr ''nginx''\<rparr>],
        Some AttributeError)
   \<and> get_containers partial_env =
       [\<lparr>name = ''web'', status = PStr ''running'', image = PStr ''nginx''\<rparr>]"
proof -
  have m: "map_containers [PDict [(''Names'', PList [PStr ''/web'']), (''Image'', PStr ''nginx''),
                          (''State'', PStr ''running'')], PInt 7] []
     = ([\<lparr>name = ''web'', status = PStr ''running'', image = PStr ''nginx''\<rparr>],
        Some AttributeError)"
    by (simp add: container_entry_def)
  have d: "decode_utf8 partial_env (slice partial_body 4 60) = Some partial_json"
    by (simp add: partial_env_def partial_env_slice)
  have j: "json_loads partial_env partial_json = Some partial_data"
    by (simp add: partial_env_def)
  have i: "py_iter partial_data =
             Inr [PDict [(''Names'', PList [PStr ''/web'']), (''Image'', PStr ''nginx''),
                         (''State'', PStr ''running'')], PInt 7]"
    by (simp add: partial_data_def)
  have "get_containers partial_env =
          fst (map_containers [PDict [(''Names'', PList [PStr ''/web'']),
                 (''Image'', PStr ''nginx''), (''State'', PStr ''running'')], PInt 7] [])"
    by (rule get_containers_steps [OF _ _ _ _ partial_env_read partial_env_header_end
          partial_env_split partial_env_find partial_env_scan d j i])
       (simp_all add: partial_env_def)
  then show ?thesis using m by simp
qed

theorem get_containers_partial_list_witness:
  "get_containers partial_env \<noteq> []
   \<and> snd (map_containers [PDict [(''Names'', PList [PStr ''/web'']), (''Image'', PStr ''nginx''),
                                (''State'', PStr ''running'')], PInt 7] []) \<noteq> None"
  using get_containers_partial_list by simp


section \<open>Properties of the process collector\<close>

lemma sort_by_cpu_desc_sorted: "sorted_wrt (\<lambda>a b. cpu b \<le> cpu a) (sort_by_cpu_desc xs)"
proof -
  have "sorted (map cpu (sort_key cpu (rev xs)))" by (rule sorted_sort_key)
  then have "sorted_wrt (\<lambda>a b. cpu a \<le> cpu b) (sort_key cpu (rev xs))"
    by (simp add: sorted_wrt_map)
  then show ?thesis by (simp add: sort_by_cpu_desc_def sorted_wrt_rev)
qed

lemma py_slice_to_sorted: "sorted_wrt P xs \<Longrightarrow> sorted_wrt P (py_slice_to xs n)"
  by (simp add: py_slice_to_def)

lemma py_slice_to_length: "0 \<le> n \<Longrightarrow> int (length (py_slice_to xs n)) \<le> n"
  by (simp add: py_slice_to_def)

lemma get_top_processes_cases:
  "get_top_processes env n = [] \<or>
   (\<exists>proc_data. get_top_processes env n = py_slice_to (sort_by_cpu_desc proc_data) n)"
  by (auto simp: get_top_processes_def Let_def split: option.splits list.splits)

text \<open>
  C10, as amended. For every state of \<open>/proc\<close> and every \<open>n \<ge> 0\<close>, \<open>get_top_processes(n)\<close>
  returns at most \<open>n\<close> entries, and at most 10 by default; for every \<open>n\<close> the returned list
  is in non-increasing order of the computed \<open>cpu\<close> value; and if \<open>/proc/uptime\<close> is
  unreadable the list is empty.
\<close>

theorem get_top_processes_top_n:
  "(0 \<le> n \<longrightarrow> int (length (get_top_processes env n)) \<le> n)
   \<and> length (get_top_processes_default env) \<le> 10
   \<and> sorted_wrt (\<lambda>a b. cpu b \<le> cpu a) (get_top_processes env n)
   \<and> (uptime_file env = None \<longrightarrow> get_top_processes env n = [])"
proof -
  have len: "int (length (get_top_processes env m)) \<le> m" if "0 \<le> m" for m
    using get_top_processes_cases [of env m] py_slice_to_length [OF that] that by auto
  have srt: "sorted_wrt (\<lambda>a b. cpu b \<le> cpu a) (get_top_processes env n)"
    using get_top_processes_cases [of env n]
    by (auto intro!: py_slice_to_sorted sort_by_cpu_desc_sorted)
  have upt: "get_top_processes env n = []" if "uptime_file env = None"
    using that by (simp add: get_top_processes_def)
  show ?thesis
    using len [of n] len [of 10] srt upt by (simp add: get_top_processes_default_def)
qed

lemma two_procs_entry_1:
  "proc_entry two_procs 1000 ''1'' =
     Some \<lparr>pid = 1, pname = ''init'', cpu = 3 / 10, mem_rss = 40960, mem_virt = 4096\<rparr>"
  by (simp add: proc_entry_def two_procs_def py_index_def py_rindex_def py_split_def
      is_space_def slice_def ascii_int_def py_round_def round_half_even_def Let_def)

lemma two_procs_entry_2:
  "proc_entry two_procs 1000 ''2'' =
     Some \<lparr>pid = 2, pname = ''agent'', cpu = 1 / 2, mem_rss = 81920, mem_virt = 8192\<rparr>"
  by (simp add: proc_entry_def two_procs_def py_index_def py_rindex_def py_split_def
      is_space_def slice_def ascii_int_def py_round_def round_half_even_def Let_def)

lemma two_procs_top:
  "get_top_processes two_procs n =
     py_slice_to [\<lparr>pid = 2, pname = ''agent'', cpu = 1 / 2, mem_rss = 81920, mem_virt = 8192\<rparr>,
                  \<lparr>pid = 1, pname = ''init'', cpu = 3 / 10, mem_rss = 40960, mem_virt = 4096\<rparr>] n"
proof -
  have u: "uptime_file two_procs = Some ''1000.00 1900.00''"
    and f: "py_float two_procs ''1000.00'' = Some 1000"
    and l: "listdir_proc two_procs = Some [''1'', ''self'', ''2'']"
    by (simp_all add: two_procs_def)
  have s: "py_split ''1000.00 1900.00'' = [''1000.00'', ''1900.00'']"
    by (simp add: py_split_def is_space_def)
  have d: "filter py_isdigit [''1'', ''self'', ''2''] = [''1'', ''2'']"
    by (simp add: py_isdigit_def)
  have m: "List.map_filter (proc_entry two_procs 1000) [''1'', ''2''] =
             [\<lparr>pid = 1, pname = ''init'', cpu = 3 / 10, mem_rss = 40960, mem_virt = 4096\<rparr>,
              \<lparr>pid = 2, pname = ''agent'', cpu = 1 / 2, mem_rss = 81920, mem_virt = 8192\<rparr>]"
    by (simp add: List.map_filter_simps two_procs_entry_1 two_procs_entry_2)
  show ?thesis
    unfolding get_top_processes_def Let_def u s f l d m option.case list.case
    by (simp add: sort_by_cpu_desc_def)
qed

text \<open>
  C10 as stated, for every \<open>n\<close>, fails for a negative \<open>n\<close>: with two processes,
  \<open>get_top_processes(-1)\<close> is \<open>proc_data[:-1]\<close>, one entry, which is more than \<open>n\<close>.
\<close>

theorem get_top_processes_negative_n:
  "get_top_processes two_procs (- 1) =
     [\<lparr>pid = 2, pname = ''agent'', cpu = 1 / 2, mem_rss = 81920, mem_virt = 8192\<rparr>]
   \<and> \<not> int (length (get_top_processes two_procs (- 1))) \<le> - 1"
  by (simp add: two_procs_top py_slice_to_def)

theorem get_top_processes_top_n_witness:
  "(0::int) \<le> 1 \<and> int (length (get_top_processes two_procs 1)) \<le> 1
   \<and> get_top_processes two_procs 1 =
       [\<lparr>pid = 2, pname = ''agent'', cpu = 1 / 2, mem_rss = 81920, mem_virt = 8192\<rparr>]
   \<and> get_top_processes (two_procs\<lparr>uptime_file := None\<rparr>) 1 = []"
  using get_top_processes_top_n [of 1 two_procs]
        get_top_processes_top_n [of 1 "two_procs\<lparr>uptime_file := None\<rparr>"]
  by (simp add: two_procs_top py_slice_to_def)


section \<open>Properties of the JSON encoder\<close>









declare str_of_nat.simps [simp del]



























section \<open>Properties of the snapshot and the handler\<close>

text \<open>The truth test fails exactly on \<open>None\<close>, \<open>False\<close>, zero and the empty containers.\<close>

lemma truthy_iff:
  "truthy v \<longleftrightarrow> v \<notin> {PNone, PBool False, PInt 0, PFloat 0, PStr [], PList [], PDict []}"
  by (cases v) auto

text \<open>
  The key \<open>'os'\<close> is missing from the static information exactly when
  \<open>/etc/os-release\<close> is read without an exception and has no \<open>PRETTY_NAME=\<close> line, and
  the assembly raises exactly then.
\<close>

lemma os_entry_empty_iff:
  "os_entry file = [] \<longleftrightarrow> (\<exists>lines. file = Some lines \<and> find (prefix ''PRETTY_NAME='') lines = None)"
  by (auto simp: os_entry_def split: option.splits)

lemma static_os_iff:
  "map_of (get_static_info h) ''os'' = None \<longleftrightarrow>
     (\<exists>lines. os_release h = Some lines \<and> find (prefix ''PRETTY_NAME='') lines = None)"
  by (auto simp: get_static_info_def os_entry_def split: option.splits)

lemma collect_metrics_error_iff:
  "(\<exists>e. collect_metrics h utcnow res = Inl e) \<longleftrightarrow> map_of (get_static_info h) ''os'' = None"
  by (auto simp: collect_metrics_def py_getitem_def get_static_info_def Let_def
      split: option.splits sum.splits)

lemma collect_metrics_only_KeyError:
  "collect_metrics h utcnow res = Inl e \<Longrightarrow> e = KeyError"
  by (auto simp: collect_metrics_def py_getitem_def Let_def split: sum.splits)

lemma metrics_path: 
  "hd (split_on (CHR ''?'') ''/metrics'') = ''/metrics''"
  "hd (split_on (CHR ''?'') ''/metrics?compact=1'') = ''/metrics''"
  "split_on (CHR ''?'') ''/metrics?compact=1'' ! 1 = ''compact=1''"
  by simp_all

lemma do_GET_metrics:
  "do_GET fr h utcnow res ''/metrics'' =
     (case collect_metrics h utcnow res of
        Inl e \<Rightarrow> Raised e
      | Inr metrics \<Rightarrow>
          Sent \<lparr>resp_status = 200,
                resp_headers = [(''Content-Type'', ''application/json''),
                                (''Content-Length'',
                                 str_of_nat (length (dumps_indent fr 2 (PDict metrics)))),
                                (''Cache-Control'', ''no-cache, no-store'')],
                resp_body = dumps_indent fr 2 (PDict metrics)\<rparr>)"
  by (simp add: do_GET_def metrics_path Let_def split: sum.splits)

lemma do_GET_metrics_compact:
  "do_GET fr h utcnow res ''/metrics?compact=1'' =
     (case collect_metrics h utcnow res of
        Inl e \<Rightarrow> Raised e
      | Inr metrics \<Rightarrow>
          Sent \<lparr>resp_status = 200,
                resp_headers = [(''Content-Type'', ''application/json''),
                                (''Content-Length'',
                                 str_of_nat (length (dumps_compact fr (PDict metrics)))),
                                (''Cache-Control'', ''no-cache, no-store'')],
                resp_body = dumps_compact fr (PDict metrics)\<rparr>)"
proof -
  have q: "sublist ''compact=1'' ''compact=1''" by simp
  show ?thesis
    unfolding do_GET_def metrics_path Let_def using q
    by (simp split: sum.splits)
qed

text \<open>
  C8. In every pass that assembles a snapshot, each of the keys \<open>cpu_freq\<close>,
  \<open>temperatures\<close> and \<open>file_descriptors\<close> is in the snapshot if and only if its
  collector's result passes the truth test, that is, is neither \<open>None\<close> nor empty, and
  \<open>entropy\<close> if and only if its result is not \<open>None\<close>. A key that is present carries the
  collector's result; a key whose source is unavailable is absent, with no placeholder.
\<close>

theorem collect_metrics_optional_fields:
  assumes "collect_metrics h utcnow res = Inr metrics"
  shows "map_of metrics ''cpu_freq'' = (if truthy (r_cpu_freq res) then Some (r_cpu_freq res) else None)
       \<and> map_of metrics ''temperatures'' = (if truthy (r_temps res) then Some (r_temps res) else None)
       \<and> map_of metrics ''file_descriptors'' = (if truthy (r_fds res) then Some (r_fds res) else None)
       \<and> map_of metrics ''entropy'' = (if r_entropy res \<noteq> PNone then Some (r_entropy res) else None)
       \<and> (''cpu_freq'' \<in> fst ` set metrics \<longleftrightarrow> truthy (r_cpu_freq res))
       \<and> (''temperatures'' \<in> fst ` set metrics \<longleftrightarrow> truthy (r_temps res))
       \<and> (''file_descriptors'' \<in> fst ` set metrics \<longleftrightarrow> truthy (r_fds res))
       \<and> (''entropy'' \<in> fst ` set metrics \<longleftrightarrow> r_entropy res \<noteq> PNone)"
proof -
  obtain s_hostname s_os s_arch s_cpu_model s_cpu_count where
    m: "metrics = [(''agent_version'', PStr AGENT_VERSION),
                (''timestamp'', PStr (utcnow @ ''Z'')),
                (''hostname'', s_hostname),
                (''system'', PDict [(''os'', s_os), (''arch'', s_arch),
                                    (''cpu_model'', s_cpu_model), (''cpu_count'', s_cpu_count)]),
                (''uptime'', r_uptime res),
                (''cpu'', r_cpu res),
                (''memory'', memory (r_memory res)),
                (''swap'', swap (r_memory res)),
                (''load'', r_load res),
                (''filesystems'', r_filesystems res),
                (''disk_io'', r_disk_io res),
                (''network'', r_network res),
                (''tcp'', r_tcp res),
                (''processes'', r_processes res),
                (''containers'', r_containers res),
                (''logs'', r_logs res)]
               @ (if truthy (r_cpu_freq res) then [(''cpu_freq'', r_cpu_freq res)] else [])
               @ (if truthy (r_temps res) then [(''temperatures'', r_temps res)] else [])
               @ (if truthy (r_fds res) then [(''file_descriptors'', r_fds res)] else [])
               @ (if r_entropy res \<noteq> PNone then [(''entropy'', r_entropy res)] else [])"
    using assms by (auto simp: collect_metrics_def Let_def split: sum.splits)
  have a: "map_of metrics ''cpu_freq'' = (if truthy (r_cpu_freq res) then Some (r_cpu_freq res) else None)"
    unfolding m by simp
  have b: "map_of metrics ''temperatures'' = (if truthy (r_temps res) then Some (r_temps res) else None)"
    unfolding m by simp
  have c: "map_of metrics ''file_descriptors'' = (if truthy (r_fds res) then Some (r_fds res) else None)"
    unfolding m by simp
  have d: "map_of metrics ''entropy'' = (if r_entropy res \<noteq> PNone then Some (r_entropy res) else None)"
    unfolding m by simp
  have k: "key \<in> fst ` set metrics \<longleftrightarrow> map_of metrics key \<noteq> None" for key
    by (simp add: map_of_eq_None_iff)
  show ?thesis
    unfolding k a b c d by simp
qed


theorem collect_metrics_optional_fields_witness:
  "collect_metrics pretty_host ''2026-01-01T00:00:00'' idle_results \<noteq> Inl KeyError
   \<and> ''cpu_freq'' \<notin> fst ` set (projr (collect_metrics pretty_host ''2026-01-01T00:00:00'' idle_results))
   \<and> map_of (projr (collect_metrics pretty_host ''2026-01-01T00:00:00'' idle_results)) ''entropy''
       = Some (PInt 0)"
proof -
  have os: "map_of (get_static_info pretty_host) ''os'' \<noteq> None"
    by (simp add: get_static_info_def pretty_host_def bare_host_def os_entry_def after_first_def)
  then obtain m where m: "collect_metrics pretty_host ''2026-01-01T00:00:00'' idle_results = Inr m"
    using collect_metrics_error_iff [of pretty_host "''2026-01-01T00:00:00''" idle_results]
    by (cases "collect_metrics pretty_host ''2026-01-01T00:00:00'' idle_results") auto
  have e: "r_cpu_freq idle_results = PNone" "r_entropy idle_results = PInt 0"
    by (simp_all add: idle_results_def)
  show ?thesis
    using collect_metrics_optional_fields [OF m] by (simp add: m e)
qed

text \<open>
  C2. The claim is that every pass produces a snapshot and that the caller of
  \<open>GET /metrics\<close> always receives a 200 response. On a host whose \<open>/etc/os-release\<close> is
  readable and has no \<open>PRETTY_NAME=\<close> line, \<open>get_static_info\<close> returns without the key
  \<open>'os'\<close>, \<open>collect_metrics\<close> raises \<open>KeyError\<close> on \<open>static['os']\<close> whatever the
  collectors returned, and \<open>do_GET\<close> sends no response.
\<close>

theorem collect_metrics_missing_os:
  "map_of (get_static_info bare_host) ''os'' = None
   \<and> collect_metrics bare_host utcnow res = Inl KeyError
   \<and> do_GET fr bare_host utcnow res ''/metrics'' = Raised KeyError
   \<and> do_GET fr bare_host utcnow res ''/metrics?compact=1'' = Raised KeyError"
proof -
  have os: "map_of (get_static_info bare_host) ''os'' = None"
    by (simp add: get_static_info_def bare_host_def os_entry_def)
  then obtain e where "collect_metrics bare_host utcnow res = Inl e"
    using collect_metrics_error_iff [of bare_host utcnow res] by blast
  then have c: "collect_metrics bare_host utcnow res = Inl KeyError"
    using collect_metrics_only_KeyError by blast
  show ?thesis
    using os c by (simp add: do_GET_metrics do_GET_metrics_compact)
qed

text \<open>With the key \<open>'os'\<close> present the pass succeeds and the handler answers 200.\<close>

lemma do_GET_metrics_200:
  assumes "map_of (get_static_info h) ''os'' \<noteq> None"
  shows "\<exists>metrics. collect_metrics h utcnow res = Inr metrics
           \<and> (\<exists>r. do_GET fr h utcnow res ''/metrics'' = Sent r \<and> resp_status r = 200)"
proof -
  obtain metrics where m: "collect_metrics h utcnow res = Inr metrics"
    using assms collect_metrics_error_iff [of h utcnow res]
    by (cases "collect_metrics h utcnow res") auto
  then show ?thesis by (simp add: do_GET_metrics)
qed






end
